theory Spec2Isabelle
  imports Complex_Main "HOL-Library.Word" "HOL-Library.AList"
begin

section \<open>Shared data model\<close>

text \<open>
  Node ids, piece ids and segment paths are only ever compared for equality by the code
  modelled here, so they are strings. Byte slices are lists of 8-bit words. Go's
  \<^verbatim>\<open>int64\<close> counters are 64-bit words read as signed numbers; sizes and piece numbers
  that the code only compares and divides (never increments) are mathematical integers.
\<close>

type_synonym NodeID = string
type_synonym PieceID = string
type_synonym Path = string
type_synonym bytes = "8 word list"

text \<open>\<^verbatim>\<open>pb.RedundancyScheme\<close>, \<^verbatim>\<open>pb.RemotePiece\<close>, \<^verbatim>\<open>pb.RemoteSegment\<close> and \<^verbatim>\<open>pb.Pointer\<close>.
  A protobuf message field that may be nil is an option.\<close>

record RedundancyScheme =
  MinReq :: int
  Total :: int
  RepairThreshold :: int
  SuccessThreshold :: int
  ErasureShareSize :: int

record RemotePiece =
  PieceNum :: int
  NodeId :: NodeID

record RemoteSegment =
  Redundancy :: "RedundancyScheme option"
  RootPieceId :: PieceID
  RemotePieces :: "RemotePiece list"

record Pointer =
  Remote :: "RemoteSegment option"
  SegmentSize :: int
  CreationDate :: int

text \<open>The generated getters are nil-safe: on a missing message they return the zero value.\<close>

definition GetRedundancy :: "RemoteSegment option \<Rightarrow> RedundancyScheme option" where
  "GetRedundancy r = (case r of None \<Rightarrow> None | Some rs \<Rightarrow> Redundancy rs)"

definition GetRemotePieces :: "RemoteSegment option \<Rightarrow> RemotePiece list" where
  "GetRemotePieces r = (case r of None \<Rightarrow> [] | Some rs \<Rightarrow> RemotePieces rs)"

definition GetMinReq :: "RedundancyScheme option \<Rightarrow> int" where
  "GetMinReq r = (case r of None \<Rightarrow> 0 | Some s \<Rightarrow> MinReq s)"

definition GetTotal :: "RedundancyScheme option \<Rightarrow> int" where
  "GetTotal r = (case r of None \<Rightarrow> 0 | Some s \<Rightarrow> Total s)"

definition GetErasureShareSize :: "RedundancyScheme option \<Rightarrow> int" where
  "GetErasureShareSize r = (case r of None \<Rightarrow> 0 | Some s \<Rightarrow> ErasureShareSize s)"

text \<open>The errors the audit package returns or passes through. \<open>ErrExternal\<close> is an error
  of a collaborator (metainfo, orders, the erasure library) handed on unchanged;
  \<open>Panic\<close> is a Go run-time panic.\<close>

datatype audit_error =
    ErrSegmentDeleted Path
  | ErrNotEnoughShares int int
  | ErrKeyNotFound
  | ErrContainedNotFound
  | ErrNodeDisqualified
  | ErrNodeOffline
  | ErrExternal string
  | Panic string

section \<open>GetRandomStripe\<close>

text \<open>
  \<^verbatim>\<open>eestream.NewRedundancyStrategyFromProto\<close> is not part of the sources; its outcome is a
  parameter of the model: either an error or a strategy. Of the strategy the code reads
  \<^verbatim>\<open>StripeSize()\<close> only.
\<close>

record RedundancyStrategy =
  RequiredCount :: int
  StrategyShareSize :: int

text \<open>Modelled from the spec: \<^verbatim>\<open>RedundancyStrategy.StripeSize\<close> is missing from the sources;
  the spec defines the stripe size as k times the erasure share size.\<close>

definition StripeSize :: "RedundancyStrategy \<Rightarrow> int" where
  "StripeSize rs = RequiredCount rs * StrategyShareSize rs"

text \<open>
  \<^verbatim>\<open>rand.Int63n(n)\<close> of Go's standard library panics for \<open>n \<le> 0\<close>; otherwise it returns
  \<open>v mod n\<close> for the non-negative 63-bit value \<open>v\<close> it accepted from the source. The accepted
  draw is a parameter.
\<close>

definition Int63n :: "int \<Rightarrow> int \<Rightarrow> audit_error + int" where
  "Int63n v n = (if n \<le> 0 then Inl (Panic ''invalid argument to Int63n'') else Inr (v mod n))"

text \<open>Go's integer division panics on a zero divisor and truncates towards zero. The
  dividend and divisor are 64-bit; the quotient of two such values fits unless the divisor
  is \<open>-1\<close>, which a stripe size never is when it is compared as below.\<close>

definition go_div :: "int \<Rightarrow> int \<Rightarrow> audit_error + int" where
  "go_div a b = (if b = 0 then Inl (Panic ''integer divide by zero'')
                 else Inr (sgn a * sgn b * (\<bar>a\<bar> div \<bar>b\<bar>)))"

definition GetRandomStripe ::
  "(RedundancyScheme option \<Rightarrow> audit_error + RedundancyStrategy) \<Rightarrow> int \<Rightarrow> Pointer
     \<Rightarrow> audit_error + int" where
  "GetRandomStripe NewRedundancyStrategyFromProto v pointer =
     (case NewRedundancyStrategyFromProto (GetRedundancy (Remote pointer)) of
        Inl e \<Rightarrow> Inl e
      | Inr redundancy \<Rightarrow>
          if SegmentSize pointer < StripeSize redundancy then Inr 0
          else (case go_div (SegmentSize pointer) (StripeSize redundancy) of
                  Inl e \<Rightarrow> Inl e
                | Inr numStripes \<Rightarrow> Int63n v numStripes))"

section \<open>Audit verifier: data\<close>

text \<open>
  A share download ends in a Go \<^verbatim>\<open>error\<close> value or in the share's bytes. Of an error the
  verifier observes three things only: whether it belongs to the class \<^verbatim>\<open>rpc.Error\<close>, whether
  it is \<^verbatim>\<open>context.DeadlineExceeded\<close>, and its RPC status code (what \<^verbatim>\<open>errs2.IsRPC\<close> compares).
  An error is the record of these observations.
\<close>

datatype rpcstatus = StatusUnknown | StatusNotFound | StatusDeadlineExceeded | StatusOther

record share_error =
  rpc_Error_Has :: bool
  Is_context_DeadlineExceeded :: bool
  rpcstatus_Code :: rpcstatus

definition IsRPC :: "share_error \<Rightarrow> rpcstatus \<Rightarrow> bool" where
  "IsRPC e c = (rpcstatus_Code e = c)"

record Share =
  Share_Error :: "share_error option"
  Share_PieceNum :: int
  Share_NodeID :: NodeID
  Share_Data :: bytes

text \<open>\<^verbatim>\<open>infectious.Share\<close>, \<^verbatim>\<open>audit.PendingAudit\<close> and \<^verbatim>\<open>audit.Report\<close>.\<close>

record infectious_Share =
  Number :: int
  Data :: bytes

record PendingAudit =
  Pending_NodeID :: NodeID
  Pending_PieceID :: PieceID
  StripeIndex :: int
  ShareSize :: int
  ExpectedShareHash :: bytes
  Pending_Path :: Path

record Report =
  Successes :: "NodeID list"
  Fails :: "NodeID list"
  Offlines :: "NodeID list"
  PendingAudits :: "PendingAudit list"

text \<open>
  The verifier's collaborators are not in the sources (metainfo, orders, the piece store
  client, the erasure library, the hash); each call's outcome is a field of the environment.
  \<open>metainfo_Get_again\<close> is the read inside \<^verbatim>\<open>checkIfSegmentAltered\<close>, which may see another
  pointer than the first read did. An order limit is reduced to the storage node it names.
  \<open>GetShare\<close> is the outcome of the download for a piece number and node: it is here that
  a dial or a transfer fails. Monitoring calls have no effect on the results and are left
  out.
\<close>

record verifier_env =
  metainfo_Get :: "Path \<Rightarrow> audit_error + Pointer"
  metainfo_Get_again :: "Path \<Rightarrow> audit_error + Pointer"
  NewRedundancyStrategyFromProto :: "RedundancyScheme option \<Rightarrow> audit_error + RedundancyStrategy"
  random_draw :: int
  CreateAuditOrderLimits :: "Pointer \<Rightarrow> (NodeID \<Rightarrow> bool) \<Rightarrow> audit_error + NodeID option list"
  CreateAuditOrderLimit :: "PendingAudit \<Rightarrow> int \<Rightarrow> audit_error option"
  GetShare :: "int \<Rightarrow> NodeID \<Rightarrow> share_error + bytes"
  NewFEC :: "int \<Rightarrow> int \<Rightarrow> audit_error option"
  Correct :: "infectious_Share list \<Rightarrow> audit_error + infectious_Share list"
  Rebuild :: "infectious_Share list \<Rightarrow> int \<Rightarrow> audit_error + bytes"
  EncodeSingle :: "bytes \<Rightarrow> int \<Rightarrow> audit_error + bytes"
  SHA256Hash :: "bytes \<Rightarrow> bytes"
  UpdatePieces :: "Path \<Rightarrow> Pointer \<Rightarrow> RemotePiece list \<Rightarrow> audit_error option"
  containment_failure :: "NodeID \<Rightarrow> audit_error option"
  containment_Get_after_download :: "NodeID \<Rightarrow> audit_error option"

text \<open>A call of \<^verbatim>\<open>metainfo.UpdatePieces\<close>: the path, the pointer passed as pre-image and the
  remove list (the add list is always nil here).\<close>

type_synonym UpdatePieces_call = "Path \<times> Pointer \<times> RemotePiece list"

text \<open>Go maps with integer keys are association lists with distinct keys: \<open>AList.update\<close>
  overwrites the entry of a key or appends a new one, \<open>map_of\<close> reads. Go leaves the
  iteration order of a map open; the model iterates in list order.\<close>

section \<open>Audit verifier: Verify\<close>

fun DownloadShares_from ::
  "(int \<Rightarrow> NodeID \<Rightarrow> share_error + bytes) \<Rightarrow> int \<Rightarrow> NodeID option list \<Rightarrow> (int \<times> Share) list" where
  "DownloadShares_from getShare i [] = []"
| "DownloadShares_from getShare i (None # limits) = DownloadShares_from getShare (i + 1) limits"
| "DownloadShares_from getShare i (Some node # limits) =
     (i, (case getShare i node of
            Inl err \<Rightarrow> \<lparr>Share_Error = Some err, Share_PieceNum = i, Share_NodeID = node, Share_Data = []\<rparr>
          | Inr buf \<Rightarrow> \<lparr>Share_Error = None, Share_PieceNum = i, Share_NodeID = node, Share_Data = buf\<rparr>))
     # DownloadShares_from getShare (i + 1) limits"

definition DownloadShares :: "verifier_env \<Rightarrow> NodeID option list \<Rightarrow> (int \<times> Share) list" where
  "DownloadShares env limits = DownloadShares_from (GetShare env) 0 limits"

definition getOfflineNodes :: "Pointer \<Rightarrow> NodeID option list \<Rightarrow> (NodeID \<Rightarrow> bool) \<Rightarrow> NodeID list" where
  "getOfflineNodes pointer limits skip =
     (let nodesWithLimit = List.map_filter (\<lambda>l. l) limits
      in map NodeId
           (filter (\<lambda>piece. NodeId piece \<notin> set nodesWithLimit \<and> \<not> skip (NodeId piece))
              (GetRemotePieces (Remote pointer))))"

definition checkIfSegmentAltered ::
  "verifier_env \<Rightarrow> Path \<Rightarrow> Pointer option \<Rightarrow> audit_error + Pointer" where
  "checkIfSegmentAltered env segmentPath oldPointer =
     (case metainfo_Get_again env segmentPath of
        Inl err \<Rightarrow> if err = ErrKeyNotFound then Inl (ErrSegmentDeleted segmentPath) else Inl err
      | Inr newPointer \<Rightarrow>
          (case oldPointer of
             None \<Rightarrow> Inr newPointer
           | Some old \<Rightarrow>
               if CreationDate old \<noteq> CreationDate newPointer
               then Inl (ErrSegmentDeleted segmentPath) else Inr newPointer))"

text \<open>The state of the classification loop of Verify, and the loop's body for one entry of
  the \<^verbatim>\<open>shares\<close> map. After the two offline cases, the branch for the other \<^verbatim>\<open>rpc.Error\<close>
  errors records the node as contained and does not \<^verbatim>\<open>continue\<close>: control reaches the
  checks below it.\<close>

record verify_state =
  offlineNodes :: "NodeID list"
  failedNodes :: "NodeID list"
  containedNodes :: "(int \<times> NodeID) list"
  sharesToAudit :: "(int \<times> Share) list"

definition classify_share :: "int \<times> Share \<Rightarrow> verify_state \<Rightarrow> verify_state" where
  "classify_share entry st =
     (let pieceNum = fst entry; share = snd entry in
      case Share_Error share of
        None \<Rightarrow> st\<lparr>sharesToAudit := AList.update pieceNum share (sharesToAudit st)\<rparr>
      | Some err \<Rightarrow>
          if rpc_Error_Has err \<and> Is_context_DeadlineExceeded err
          then st\<lparr>offlineNodes := offlineNodes st @ [Share_NodeID share]\<rparr>
          else if rpc_Error_Has err \<and> IsRPC err StatusUnknown
          then st\<lparr>offlineNodes := offlineNodes st @ [Share_NodeID share]\<rparr>
          else
            (let st1 = (if rpc_Error_Has err
                        then st\<lparr>containedNodes := AList.update pieceNum (Share_NodeID share) (containedNodes st)\<rparr>
                        else st)
             in if IsRPC err StatusNotFound
                then st1\<lparr>failedNodes := failedNodes st1 @ [Share_NodeID share]\<rparr>
                else if IsRPC err StatusDeadlineExceeded
                then st1\<lparr>containedNodes := AList.update pieceNum (Share_NodeID share) (containedNodes st1)\<rparr>
                else st1\<lparr>containedNodes := AList.update pieceNum (Share_NodeID share) (containedNodes st1)\<rparr>))"

definition classify_shares :: "(int \<times> Share) list \<Rightarrow> verify_state \<Rightarrow> verify_state" where
  "classify_shares shares st = fold classify_share shares st"

text \<open>
  The spec's table for a download that ended in error, in the spec's words: a transport
  timeout before the handshake and a transport error of status Unknown are offline, a
  NotFound is a fail, everything else is contained. \<open>put_in\<close> records a node in a bucket of
  the loop's state.
\<close>

datatype bucket = Offline | Fail | Contained

definition spec_bucket :: "share_error \<Rightarrow> bucket" where
  "spec_bucket e =
     (if rpc_Error_Has e \<and> Is_context_DeadlineExceeded e then Offline
      else if rpc_Error_Has e \<and> IsRPC e StatusUnknown then Offline
      else if IsRPC e StatusNotFound then Fail
      else Contained)"

definition put_in :: "bucket \<Rightarrow> int \<Rightarrow> NodeID \<Rightarrow> verify_state \<Rightarrow> verify_state" where
  "put_in b pieceNum n st =
     (case b of
        Offline \<Rightarrow> st\<lparr>offlineNodes := offlineNodes st @ [n]\<rparr>
      | Fail \<Rightarrow> st\<lparr>failedNodes := failedNodes st @ [n]\<rparr>
      | Contained \<Rightarrow> st\<lparr>containedNodes := AList.update pieceNum n (containedNodes st)\<rparr>)"

definition makeCopies :: "(int \<times> Share) list \<Rightarrow> infectious_Share list" where
  "makeCopies originals =
     map (\<lambda>entry. \<lparr>Number = Share_PieceNum (snd entry), Data = Share_Data (snd entry)\<rparr>) originals"

text \<open>Reading a Go map at a missing key gives the zero value: a share with no data and the
  zero node id.\<close>

definition share_at :: "(int \<times> Share) list \<Rightarrow> int \<Rightarrow> Share" where
  "share_at m k = (case map_of m k of
                     None \<Rightarrow> \<lparr>Share_Error = None, Share_PieceNum = 0, Share_NodeID = [], Share_Data = []\<rparr>
                   | Some s \<Rightarrow> s)"

definition auditShares ::
  "verifier_env \<Rightarrow> int \<Rightarrow> int \<Rightarrow> (int \<times> Share) list \<Rightarrow> audit_error + (int list \<times> infectious_Share list)" where
  "auditShares env required total_n originals =
     (case NewFEC env required total_n of
        Some err \<Rightarrow> Inl err
      | None \<Rightarrow>
          (case Correct env (makeCopies originals) of
             Inl err \<Rightarrow> Inl err
           | Inr copies \<Rightarrow>
               Inr (map Number (filter (\<lambda>share. Share_Data (share_at originals (Number share)) \<noteq> Data share) copies),
                    copies)))"

definition removeFailedPieces ::
  "verifier_env \<Rightarrow> Path \<Rightarrow> Pointer \<Rightarrow> NodeID list \<Rightarrow> audit_error option \<times> UpdatePieces_call list" where
  "removeFailedPieces env path pointer failed_nodes =
     (if failed_nodes = [] then (None, [])
      else (let toRemove = filter (\<lambda>piece. NodeId piece \<in> set failed_nodes) (GetRemotePieces (Remote pointer))
            in (UpdatePieces env path pointer toRemove, [(path, pointer, toRemove)])))"



definition getSuccessNodes ::
  "(int \<times> Share) list \<Rightarrow> NodeID list \<Rightarrow> NodeID list \<Rightarrow> (int \<times> NodeID) list \<Rightarrow> NodeID list" where
  "getSuccessNodes shares failed_nodes offline_nodes contained_nodes =
     (let fails = set failed_nodes \<union> set offline_nodes \<union> set (map snd contained_nodes)
      in map (\<lambda>entry. Share_NodeID (snd entry))
           (filter (\<lambda>entry. Share_NodeID (snd entry) \<notin> fails) shares))"

text \<open>The loop of \<^verbatim>\<open>createPendingAudits\<close> over the contained nodes. The root piece id is read
  through \<^verbatim>\<open>pointer.GetRemote().RootPieceId\<close> when an entry is built.\<close>

fun encode_pending ::
  "verifier_env \<Rightarrow> bytes \<Rightarrow> RemoteSegment option \<Rightarrow> int \<Rightarrow> int \<Rightarrow> Path \<Rightarrow> (int \<times> NodeID) list
     \<Rightarrow> PendingAudit list \<Rightarrow> audit_error + PendingAudit list" where
  "encode_pending env stripeData remote randomIndex shareSize path [] pending = Inr pending"
| "encode_pending env stripeData remote randomIndex shareSize path (entry # rest) pending =
     (case EncodeSingle env stripeData (fst entry) of
        Inl err \<Rightarrow> Inl err
      | Inr share \<Rightarrow>
          (case remote of
             None \<Rightarrow> Inl (Panic ''nil pointer dereference'')
           | Some r \<Rightarrow>
               encode_pending env stripeData remote randomIndex shareSize path rest
                 (pending @ [\<lparr>Pending_NodeID = snd entry, Pending_PieceID = RootPieceId r,
                              StripeIndex = randomIndex, ShareSize = shareSize,
                              ExpectedShareHash = SHA256Hash env share, Pending_Path = path\<rparr>])))"

definition createPendingAudits ::
  "verifier_env \<Rightarrow> (int \<times> NodeID) list \<Rightarrow> infectious_Share list \<Rightarrow> Pointer \<Rightarrow> int \<Rightarrow> Path
     \<Rightarrow> audit_error + PendingAudit list" where
  "createPendingAudits env contained_nodes correctedShares pointer randomIndex path =
     (if contained_nodes = [] then Inr []
      else
        (let redundancy = GetRedundancy (Remote pointer);
             required = GetMinReq redundancy;
             total_n = GetTotal redundancy;
             shareSize = GetErasureShareSize redundancy
         in case NewFEC env required total_n of
              Some err \<Rightarrow> Inl err
            | None \<Rightarrow>
                (case Rebuild env correctedShares shareSize of
                   Inl err \<Rightarrow> Inl err
                 | Inr stripeData \<Rightarrow>
                     encode_pending env stripeData (Remote pointer) randomIndex shareSize
                       path contained_nodes [])))"

text \<open>What a call of Verify leaves behind: the report and the error it returns, and the calls
  of \<^verbatim>\<open>UpdatePieces\<close> it made. A panic is the error \<open>Panic\<close> with no report.\<close>

record verify_result =
  returned_report :: "Report option"
  returned_err :: "audit_error option"
  UpdatePieces_calls :: "UpdatePieces_call list"

definition returns :: "Report option \<Rightarrow> audit_error option \<Rightarrow> verify_result" where
  "returns r e = \<lparr>returned_report = r, returned_err = e, UpdatePieces_calls = []\<rparr>"

definition Verify :: "verifier_env \<Rightarrow> Path \<Rightarrow> (NodeID \<Rightarrow> bool) \<Rightarrow> verify_result" where
  "Verify env path skip =
     (case metainfo_Get env path of
        Inl err \<Rightarrow> if err = ErrKeyNotFound then returns None (Some (ErrSegmentDeleted path))
                   else returns None (Some err)
      | Inr pointer \<Rightarrow>
     (case GetRandomStripe (NewRedundancyStrategyFromProto env) (random_draw env) pointer of
        Inl err \<Rightarrow> returns None (Some err)
      | Inr randomIndex \<Rightarrow>
     (case CreateAuditOrderLimits env pointer skip of
        Inl err \<Rightarrow> returns None (Some err)
      | Inr orderLimits \<Rightarrow>
     (let offline0 = getOfflineNodes pointer orderLimits skip;
          shares = DownloadShares env orderLimits
      in case checkIfSegmentAltered env path (Some pointer) of
        Inl err \<Rightarrow> returns (Some \<lparr>Successes = [], Fails = [], Offlines = offline0, PendingAudits = []\<rparr>)
                     (Some err)
      | Inr _ \<Rightarrow>
     (let st = classify_shares shares
                 \<lparr>offlineNodes = offline0, failedNodes = [], containedNodes = [], sharesToAudit = []\<rparr>
      in case Remote pointer of
        None \<Rightarrow> returns None (Some (Panic ''nil pointer dereference''))
      | Some remote \<Rightarrow>
     (let required = GetMinReq (Redundancy remote);
          total_n = GetTotal (Redundancy remote)
      in if int (length (sharesToAudit st)) < required
         then returns (Some \<lparr>Successes = [], Fails = failedNodes st, Offlines = offlineNodes st,
                              PendingAudits = []\<rparr>)
                (Some (ErrNotEnoughShares (int (length (sharesToAudit st))) required))
         else
     (case auditShares env required total_n (sharesToAudit st) of
        Inl err \<Rightarrow> returns (Some \<lparr>Successes = [], Fails = failedNodes st, Offlines = offlineNodes st,
                                  PendingAudits = []\<rparr>) (Some err)
      | Inr (pieceNums, correctedShares) \<Rightarrow>
     (let failed_nodes = failedNodes st @ map (\<lambda>pieceNum. Share_NodeID (share_at shares pieceNum)) pieceNums;
          removal = removeFailedPieces env path pointer failed_nodes;
          successNodes = getSuccessNodes shares failed_nodes (offlineNodes st) (containedNodes st)
      in case createPendingAudits env (containedNodes st) correctedShares pointer randomIndex path of
           Inl err \<Rightarrow>
             \<lparr>returned_report = Some \<lparr>Successes = successNodes, Fails = failed_nodes,
                                      Offlines = offlineNodes st, PendingAudits = []\<rparr>,
              returned_err = Some err, UpdatePieces_calls = snd removal\<rparr>
         | Inr pendingAudits \<Rightarrow>
             \<lparr>returned_report = Some \<lparr>Successes = successNodes, Fails = failed_nodes,
                                      Offlines = offlineNodes st, PendingAudits = pendingAudits\<rparr>,
              returned_err = None, UpdatePieces_calls = snd removal\<rparr>))))))))"

section \<open>Audit verifier: Reverify\<close>

text \<open>The status of a result, the result a goroutine sends on the channel, and the
  containment database: at most one pending audit per node.\<close>

datatype result_status = skipped | success | offline | failed | contained_status | erred

record result =
  result_nodeID :: NodeID
  result_status :: result_status
  result_pendingAudit :: "PendingAudit option"
  result_err :: "audit_error option"

definition send :: "NodeID \<Rightarrow> result_status \<Rightarrow> result" where
  "send n s = \<lparr>result_nodeID = n, result_status = s, result_pendingAudit = None, result_err = None\<rparr>"

type_synonym containment = "NodeID \<rightharpoonup> PendingAudit"

text \<open>\<^verbatim>\<open>containment.Get\<close>: a failure of the database, or the entry, or ErrContainedNotFound.
  \<^verbatim>\<open>containment.Delete\<close> removes the entry; its error is only logged by the verifier.\<close>

definition containment_Get :: "verifier_env \<Rightarrow> containment \<Rightarrow> NodeID \<Rightarrow> audit_error + PendingAudit" where
  "containment_Get env db n =
     (case containment_failure env n of
        Some e \<Rightarrow> Inl e
      | None \<Rightarrow> (case db n of None \<Rightarrow> Inl ErrContainedNotFound | Some pending \<Rightarrow> Inr pending))"

definition containment_Delete :: "containment \<Rightarrow> NodeID \<Rightarrow> containment" where
  "containment_Delete db n = db(n := None)"

text \<open>What the code does with the error of \<^verbatim>\<open>GetShare\<close> or with the downloaded share, once
  the pending audit is known to be still there. A failed node's piece is removed from the
  pointer unless the segment was altered, in which case the node counts as a success.\<close>

definition fail_or_altered ::
  "verifier_env \<Rightarrow> PendingAudit \<Rightarrow> Pointer \<Rightarrow> result list \<times> UpdatePieces_call list" where
  "fail_or_altered env pending pendingPointer =
     (case checkIfSegmentAltered env (Pending_Path pending) (Some pendingPointer) of
        Inl e \<Rightarrow> ([send (Pending_NodeID pending) success], [])
      | Inr oldPtr \<Rightarrow>
          ([send (Pending_NodeID pending) failed],
           snd (removeFailedPieces env (Pending_Path pending) oldPtr [Pending_NodeID pending])))"

definition analyze_share ::
  "verifier_env \<Rightarrow> PendingAudit \<Rightarrow> Pointer \<Rightarrow> share_error + bytes
     \<Rightarrow> result list \<times> UpdatePieces_call list" where
  "analyze_share env pending pendingPointer outcome =
     (let n = Pending_NodeID pending;
          still_contained = [(send n contained_status)\<lparr>result_pendingAudit := Some pending\<rparr>]
      in case outcome of
        Inl e \<Rightarrow>
          if rpc_Error_Has e then
            (if Is_context_DeadlineExceeded e then ([send n offline], [])
             else if IsRPC e StatusUnknown then ([send n offline], [])
             else (still_contained, []))
          else if IsRPC e StatusNotFound then fail_or_altered env pending pendingPointer
          else if IsRPC e StatusDeadlineExceeded then (still_contained, [])
          else (still_contained, [])
      | Inr data \<Rightarrow>
          if SHA256Hash env data = ExpectedShareHash pending then ([send n success], [])
          else fail_or_altered env pending pendingPointer)"

text \<open>
  The goroutine Reverify starts for a pending audit: the results it sends on the channel, in
  the order it sends them, the containment database it leaves, and its calls of
  \<^verbatim>\<open>UpdatePieces\<close>. A nil-pointer panic is \<open>Inl\<close>. The loop that looks the node up in the
  pending pointer has no \<^verbatim>\<open>break\<close>: the last match gives the piece number. When the node is
  not found, the code sends a result with status erred (and the nil error of the pointer
  read), deletes the pending audit, and sends a second result with status skipped.
\<close>

definition reverify_pending ::
  "verifier_env \<Rightarrow> PendingAudit \<Rightarrow> containment
     \<Rightarrow> audit_error + (result list \<times> containment \<times> UpdatePieces_call list)" where
  "reverify_pending env pending db =
     (let n = Pending_NodeID pending in
      case metainfo_Get env (Pending_Path pending) of
        Inl e \<Rightarrow>
          if e = ErrKeyNotFound then Inr ([send n skipped], containment_Delete db n, [])
          else Inr ([(send n erred)\<lparr>result_err := Some e\<rparr>], db, [])
      | Inr pendingPointer \<Rightarrow>
          (case Remote pendingPointer of
             None \<Rightarrow> Inl (Panic ''nil pointer dereference'')
           | Some remote \<Rightarrow>
               if RootPieceId remote \<noteq> Pending_PieceID pending
               then Inr ([send n skipped], containment_Delete db n, [])
               else
                 (case filter (\<lambda>piece. NodeId piece = n) (RemotePieces remote) of
                    [] \<Rightarrow> Inr ([(send n erred)\<lparr>result_err := None\<rparr>, send n skipped],
                               containment_Delete db n, [])
                  | m # ms \<Rightarrow>
                      (let pieceNum = PieceNum (last (m # ms)) in
                       case CreateAuditOrderLimit env pending pieceNum of
                         Some e \<Rightarrow>
                           if e = ErrNodeDisqualified
                           then Inr ([(send n erred)\<lparr>result_err := Some e\<rparr>], containment_Delete db n, [])
                           else if e = ErrNodeOffline then Inr ([send n offline], db, [])
                           else Inr ([(send n erred)\<lparr>result_err := Some e\<rparr>], db, [])
                       | None \<Rightarrow>
                           (let outcome = GetShare env pieceNum n in
                            case containment_Get_after_download env n of
                              Some getErr \<Rightarrow>
                                if getErr = ErrContainedNotFound then Inr ([send n skipped], db, [])
                                else Inr ([(send n erred)\<lparr>result_err := Some getErr\<rparr>], db, [])
                            | None \<Rightarrow>
                                (let (sent, calls) = analyze_share env pending pendingPointer outcome
                                 in Inr (sent, db, calls)))))))"

text \<open>The loop of Reverify over the pieces of the pointer: a node without a pending audit, or
  whose lookup fails, gets its result from the loop itself; for the others a goroutine is
  started with the pending audit.\<close>

fun start_goroutines ::
  "verifier_env \<Rightarrow> containment \<Rightarrow> RemotePiece list \<Rightarrow> result list \<times> PendingAudit list" where
  "start_goroutines env db [] = ([], [])"
| "start_goroutines env db (piece # pieces) =
     (let (sent, started) = start_goroutines env db pieces in
      case containment_Get env db (NodeId piece) of
        Inl e \<Rightarrow>
          if e = ErrContainedNotFound then (send (NodeId piece) skipped # sent, started)
          else ((send (NodeId piece) erred)\<lparr>result_err := Some e\<rparr> # sent, started)
      | Inr pending \<Rightarrow> (sent, pending # started))"

text \<open>
  The goroutines run concurrently. The model fixes one schedule: the loop starts them all
  before any of them sends, and they then run one after the other, in the order they were
  started. So the channel carries the loop's own results first and then those of the
  goroutines; a send that finds the buffer full waits until the collector has made room.
\<close>

fun run_goroutines ::
  "verifier_env \<Rightarrow> PendingAudit list \<Rightarrow> containment
     \<Rightarrow> audit_error + (result list \<times> containment \<times> UpdatePieces_call list)" where
  "run_goroutines env [] db = Inr ([], db, [])"
| "run_goroutines env (pending # rest) db =
     (case reverify_pending env pending db of
        Inl e \<Rightarrow> Inl e
      | Inr (sent, db', calls) \<Rightarrow>
          (case run_goroutines env rest db' of
             Inl e \<Rightarrow> Inl e
           | Inr (sent', db'', calls') \<Rightarrow> Inr (sent @ sent', db'', calls @ calls')))"

text \<open>The collector receives one result per piece of the pointer and sorts it into the
  report; the errors of erred results are combined (a nil error adds nothing).\<close>

definition collect_result :: "result \<Rightarrow> Report \<times> audit_error list \<Rightarrow> Report \<times> audit_error list" where
  "collect_result r acc =
     (let report = fst acc; errors = snd acc in
      case result_status r of
        success \<Rightarrow> (report\<lparr>Successes := Successes report @ [result_nodeID r]\<rparr>, errors)
      | offline \<Rightarrow> (report\<lparr>Offlines := Offlines report @ [result_nodeID r]\<rparr>, errors)
      | failed \<Rightarrow> (report\<lparr>Fails := Fails report @ [result_nodeID r]\<rparr>, errors)
      | contained_status \<Rightarrow>
          (report\<lparr>PendingAudits := PendingAudits report @
              (case result_pendingAudit r of None \<Rightarrow> [] | Some pa \<Rightarrow> [pa])\<rparr>, errors)
      | erred \<Rightarrow> (report, errors @ (case result_err r of None \<Rightarrow> [] | Some e \<Rightarrow> [e]))
      | skipped \<Rightarrow> (report, errors))"

record reverify_result =
  reverify_report :: "Report option"
  reverify_errors :: "audit_error list"
  containment_after :: containment
  reverify_UpdatePieces_calls :: "UpdatePieces_call list"
  results_sent :: "result list"

definition Reverify :: "verifier_env \<Rightarrow> Path \<Rightarrow> containment \<Rightarrow> reverify_result" where
  "Reverify env path db =
     (case metainfo_Get env path of
        Inl e \<Rightarrow>
          \<lparr>reverify_report = None,
           reverify_errors = [if e = ErrKeyNotFound then ErrSegmentDeleted path else e],
           containment_after = db, reverify_UpdatePieces_calls = [], results_sent = []\<rparr>
      | Inr pointer \<Rightarrow>
          (let pieces = GetRemotePieces (Remote pointer);
               (loop_sent, started) = start_goroutines env db pieces
           in case run_goroutines env started db of
                Inl e \<Rightarrow>
                  \<lparr>reverify_report = None, reverify_errors = [e], containment_after = db,
                   reverify_UpdatePieces_calls = [], results_sent = loop_sent\<rparr>
              | Inr (sent, db', calls) \<Rightarrow>
                  (let received = take (length pieces) (loop_sent @ sent);
                       (report, errors) =
                         fold collect_result received
                           (\<lparr>Successes = [], Fails = [], Offlines = [], PendingAudits = []\<rparr>, [])
                   in \<lparr>reverify_report = Some report, reverify_errors = errors,
                       containment_after = db', reverify_UpdatePieces_calls = calls,
                       results_sent = loop_sent @ sent\<rparr>)))"

section \<open>Overlay cache: node reputation rows\<close>

text \<open>
  \<^verbatim>\<open>dbx.Node\<close>, the row of the \<^verbatim>\<open>nodes\<close> table, with the columns of the table's
  declaration and the operator columns \<^verbatim>\<open>Create_Node\<close> is given. The counters are \<^verbatim>\<open>int64\<close>:
  64-bit words, read as signed numbers with \<open>sint\<close>; \<open>+ 1\<close> on a word wraps as Go's \<^verbatim>\<open>++\<close>
  does. The ratios are \<^verbatim>\<open>float64\<close>. IEEE arithmetic is not modelled: the type of the ratios
  is a type parameter \<open>'f\<close>, and the expression \<^verbatim>\<open>float64(a) / float64(b)\<close> is a parameter
  \<open>fdiv\<close> of every function that evaluates it. Times are seconds.
\<close>

type_synonym int64 = "64 word"

record 'f Node =
  Node_Id :: NodeID
  AuditSuccessCount :: int64
  TotalAuditCount :: int64
  AuditSuccessRatio :: 'f
  UptimeSuccessCount :: int64
  TotalUptimeCount :: int64
  UptimeRatio :: 'f
  Created_At :: int
  Updated_At :: int
  Wallet :: string
  Email :: string

text \<open>\<^verbatim>\<open>overlay.NodeStats\<close> and \<^verbatim>\<open>overlay.UpdateRequest\<close>, with the fields the code below uses.\<close>

record 'f NodeStats =
  Stats_NodeID :: NodeID
  Stats_AuditSuccessRatio :: 'f
  Stats_AuditSuccessCount :: int64
  Stats_AuditCount :: int64
  Stats_UptimeRatio :: 'f
  Stats_UptimeSuccessCount :: int64
  Stats_UptimeCount :: int64
  Operator_Email :: string
  Operator_Wallet :: string

record UpdateRequest =
  Req_NodeID :: NodeID
  AuditSuccess :: bool
  IsUp :: bool

datatype overlay_error =
    ErrNodeNotFound
  | ErrNoRows
  | ErrDuplicateKey
  | ErrAuditSuccess string
  | ErrUptime string

text \<open>The \<^verbatim>\<open>nodes\<close> table, keyed by its primary key \<^verbatim>\<open>id\<close>. Failures of the database
  engine itself (opening or committing the transaction) are outside the model.\<close>

type_synonym 'f nodes_table = "NodeID \<rightharpoonup> 'f Node"

text \<open>
  Modelled from the spec: the generated accessors \<^verbatim>\<open>Create_Node\<close> and \<^verbatim>\<open>Update_Node_By_Id\<close> are
  missing from the sources. The spec has every update of a row run as one transaction on
  that row. An insert fails on an id that is a row already and stamps both times of the new
  row with the time of the call; an update writes the fields it is given, stamps
  \<^verbatim>\<open>updated_at\<close> with the time of the call, and leaves every other column of the row and
  every other row as they are.
\<close>

definition Create_Node :: "int \<Rightarrow> 'f nodes_table \<Rightarrow> 'f Node \<Rightarrow> overlay_error + ('f Node \<times> 'f nodes_table)" where
  "Create_Node now db row =
     (case db (Node_Id row) of
        Some _ \<Rightarrow> Inl ErrDuplicateKey
      | None \<Rightarrow> (let row' = row\<lparr>Created_At := now, Updated_At := now\<rparr>
                 in Inr (row', db(Node_Id row \<mapsto> row'))))"

definition Update_Node_By_Id ::
  "int \<Rightarrow> 'f nodes_table \<Rightarrow> NodeID \<Rightarrow> ('f Node \<Rightarrow> 'f Node) \<Rightarrow> overlay_error + ('f Node \<times> 'f nodes_table)" where
  "Update_Node_By_Id now db nodeID updateFields =
     (case db nodeID of
        None \<Rightarrow> Inl ErrNoRows
      | Some row \<Rightarrow> (let row' = (updateFields row)\<lparr>Updated_At := now\<rparr>
                     in Inr (row', db(nodeID \<mapsto> row'))))"

definition updateRatioVars ::
  "(int64 \<Rightarrow> int64 \<Rightarrow> 'f) \<Rightarrow> bool \<Rightarrow> int64 \<Rightarrow> int64 \<Rightarrow> int64 \<times> int64 \<times> 'f" where
  "updateRatioVars fdiv newStatus successCount totalCount =
     (let totalCount' = totalCount + 1;
          successCount' = (if newStatus then successCount + 1 else successCount);
          newRatio = fdiv successCount' totalCount'
      in (successCount', totalCount', newRatio))"

definition checkRatioVars ::
  "(int64 \<Rightarrow> int64 \<Rightarrow> 'f::zero) \<Rightarrow> int64 \<Rightarrow> int64 \<Rightarrow> string + 'f" where
  "checkRatioVars fdiv successCount totalCount =
     (if sint successCount < 0 then Inl ''success count less than 0''
      else if sint totalCount < 0 then Inl ''total count less than 0''
      else if sint totalCount < sint successCount then Inl ''success count greater than total count''
      else if totalCount = 0 then Inr 0
      else Inr (fdiv successCount totalCount))"

definition getNodeStats :: "NodeID \<Rightarrow> 'f Node \<Rightarrow> 'f NodeStats" where
  "getNodeStats nodeID dbNode =
     \<lparr>Stats_NodeID = nodeID,
      Stats_AuditSuccessRatio = AuditSuccessRatio dbNode,
      Stats_AuditSuccessCount = AuditSuccessCount dbNode,
      Stats_AuditCount = TotalAuditCount dbNode,
      Stats_UptimeRatio = UptimeRatio dbNode,
      Stats_UptimeSuccessCount = UptimeSuccessCount dbNode,
      Stats_UptimeCount = TotalUptimeCount dbNode,
      Operator_Email = Email dbNode,
      Operator_Wallet = Wallet dbNode\<rparr>"

text \<open>\<^verbatim>\<open>overlaycache.Create\<close>: with no starting stats every counter and ratio is zero and the
  operator fields are empty; starting stats are checked by \<^verbatim>\<open>checkRatioVars\<close> first.\<close>

definition Create ::
  "(int64 \<Rightarrow> int64 \<Rightarrow> 'f::zero) \<Rightarrow> int \<Rightarrow> 'f nodes_table \<Rightarrow> NodeID \<Rightarrow> 'f NodeStats option
     \<Rightarrow> overlay_error + ('f NodeStats \<times> 'f nodes_table)" where
  "Create fdiv now db nodeID startingStats =
     (let create = (\<lambda>row. case Create_Node now db row of
                            Inl e \<Rightarrow> Inl e
                          | Inr (dbNode, db') \<Rightarrow> Inr (getNodeStats nodeID dbNode, db'))
      in case startingStats of
        None \<Rightarrow> create
          \<lparr>Node_Id = nodeID, AuditSuccessCount = 0, TotalAuditCount = 0, AuditSuccessRatio = 0,
           UptimeSuccessCount = 0, TotalUptimeCount = 0, UptimeRatio = 0,
           Created_At = now, Updated_At = now, Wallet = [], Email = []\<rparr>
      | Some st \<Rightarrow>
          (case checkRatioVars fdiv (Stats_AuditSuccessCount st) (Stats_AuditCount st) of
             Inl e \<Rightarrow> Inl (ErrAuditSuccess e)
           | Inr auditSuccessRatio \<Rightarrow>
               (case checkRatioVars fdiv (Stats_UptimeSuccessCount st) (Stats_UptimeCount st) of
                  Inl e \<Rightarrow> Inl (ErrUptime e)
                | Inr uptimeRatio \<Rightarrow> create
                    \<lparr>Node_Id = nodeID,
                     AuditSuccessCount = Stats_AuditSuccessCount st,
                     TotalAuditCount = Stats_AuditCount st,
                     AuditSuccessRatio = auditSuccessRatio,
                     UptimeSuccessCount = Stats_UptimeSuccessCount st,
                     TotalUptimeCount = Stats_UptimeCount st,
                     UptimeRatio = uptimeRatio,
                     Created_At = now, Updated_At = now,
                     Wallet = Operator_Wallet st, Email = Operator_Email st\<rparr>)))"

text \<open>\<^verbatim>\<open>overlaycache.UpdateStats\<close>: the row is read, both pairs of counters go through
  \<^verbatim>\<open>updateRatioVars\<close>, and all six fields are given to the update.\<close>

definition UpdateStats ::
  "(int64 \<Rightarrow> int64 \<Rightarrow> 'f) \<Rightarrow> int \<Rightarrow> 'f nodes_table \<Rightarrow> UpdateRequest
     \<Rightarrow> overlay_error + ('f NodeStats \<times> 'f nodes_table)" where
  "UpdateStats fdiv now db updateReq =
     (let nodeID = Req_NodeID updateReq in
      case db nodeID of
        None \<Rightarrow> Inl ErrNoRows
      | Some dbNode \<Rightarrow>
          (let (auditSuccessCount, totalAuditCount, auditSuccessRatio) =
                 updateRatioVars fdiv (AuditSuccess updateReq)
                   (AuditSuccessCount dbNode) (TotalAuditCount dbNode);
               (uptimeSuccessCount, totalUptimeCount, uptimeRatio) =
                 updateRatioVars fdiv (IsUp updateReq)
                   (UptimeSuccessCount dbNode) (TotalUptimeCount dbNode)
           in case Update_Node_By_Id now db nodeID
                     (\<lambda>r. r\<lparr>AuditSuccessCount := auditSuccessCount,
                             TotalAuditCount := totalAuditCount,
                             AuditSuccessRatio := auditSuccessRatio,
                             UptimeSuccessCount := uptimeSuccessCount,
                             TotalUptimeCount := totalUptimeCount,
                             UptimeRatio := uptimeRatio\<rparr>) of
                Inl e \<Rightarrow> Inl e
              | Inr (dbNode', db') \<Rightarrow> Inr (getNodeStats nodeID dbNode', db')))"

definition UpdateUptime ::
  "(int64 \<Rightarrow> int64 \<Rightarrow> 'f) \<Rightarrow> int \<Rightarrow> 'f nodes_table \<Rightarrow> NodeID \<Rightarrow> bool
     \<Rightarrow> overlay_error + ('f NodeStats \<times> 'f nodes_table)" where
  "UpdateUptime fdiv now db nodeID isUp =
     (case db nodeID of
        None \<Rightarrow> Inl ErrNoRows
      | Some dbNode \<Rightarrow>
          (let (uptimeSuccessCount, totalUptimeCount, uptimeRatio) =
                 updateRatioVars fdiv isUp (UptimeSuccessCount dbNode) (TotalUptimeCount dbNode)
           in case Update_Node_By_Id now db nodeID
                     (\<lambda>r. r\<lparr>UptimeSuccessCount := uptimeSuccessCount,
                             TotalUptimeCount := totalUptimeCount,
                             UptimeRatio := uptimeRatio\<rparr>) of
                Inl e \<Rightarrow> Inl e
              | Inr (dbNode', db') \<Rightarrow> Inr (getNodeStats nodeID dbNode', db')))"

definition UpdateAuditSuccess ::
  "(int64 \<Rightarrow> int64 \<Rightarrow> 'f) \<Rightarrow> int \<Rightarrow> 'f nodes_table \<Rightarrow> NodeID \<Rightarrow> bool
     \<Rightarrow> overlay_error + ('f NodeStats \<times> 'f nodes_table)" where
  "UpdateAuditSuccess fdiv now db nodeID auditSuccess =
     (case db nodeID of
        None \<Rightarrow> Inl ErrNoRows
      | Some dbNode \<Rightarrow>
          (let (auditSuccessCount, totalAuditCount, auditRatio) =
                 updateRatioVars fdiv auditSuccess (AuditSuccessCount dbNode) (TotalAuditCount dbNode)
           in case Update_Node_By_Id now db nodeID
                     (\<lambda>r. r\<lparr>AuditSuccessCount := auditSuccessCount,
                             TotalAuditCount := totalAuditCount,
                             AuditSuccessRatio := auditRatio\<rparr>) of
                Inl e \<Rightarrow> Inl e
              | Inr (dbNode', db') \<Rightarrow> Inr (getNodeStats nodeID dbNode', db')))"

text \<open>The invariant of a row as the spec states it: the success counts lie between zero and
  the totals, and a ratio whose total is positive is the quotient of its two counters.\<close>

definition ratio_inv :: "(int64 \<Rightarrow> int64 \<Rightarrow> 'f) \<Rightarrow> 'f Node \<Rightarrow> bool" where
  "ratio_inv fdiv n =
     (0 \<le> sint (AuditSuccessCount n) \<and> sint (AuditSuccessCount n) \<le> sint (TotalAuditCount n)
      \<and> 0 \<le> sint (UptimeSuccessCount n) \<and> sint (UptimeSuccessCount n) \<le> sint (TotalUptimeCount n)
      \<and> (if 0 < sint (TotalAuditCount n)
          then AuditSuccessRatio n = fdiv (AuditSuccessCount n) (TotalAuditCount n) else True)
      \<and> (if 0 < sint (TotalUptimeCount n)
          then UptimeRatio n = fdiv (UptimeSuccessCount n) (TotalUptimeCount n) else True))"

text \<open>The largest \<^verbatim>\<open>int64\<close>.\<close>

definition MaxInt64 :: int where
  "MaxInt64 = 9223372036854775807"

text \<open>An exact quotient, used where a concrete \<open>fdiv\<close> is needed.\<close>

definition exact_div :: "int64 \<Rightarrow> int64 \<Rightarrow> real" where
  "exact_div a b = real_of_int (sint a) / real_of_int (sint b)"

text \<open>A row of the table with given counters, exact ratios, given times and no operator
  data; used for concrete inputs.\<close>

definition mk_node ::
  "NodeID \<Rightarrow> int64 \<Rightarrow> int64 \<Rightarrow> int64 \<Rightarrow> int64 \<Rightarrow> int \<Rightarrow> int \<Rightarrow> real Node" where
  "mk_node nid asc ac usc uc created updated =
     \<lparr>Node_Id = nid, AuditSuccessCount = asc, TotalAuditCount = ac,
      AuditSuccessRatio = (if ac = 0 then 0 else exact_div asc ac),
      UptimeSuccessCount = usc, TotalUptimeCount = uc,
      UptimeRatio = (if uc = 0 then 0 else exact_div usc uc),
      Created_At = created, Updated_At = updated,
      Wallet = [], Email = []\<rparr>"

section \<open>Bandwidth agreements\<close>

text \<open>
  \<^verbatim>\<open>pb.Order\<close> with its \<^verbatim>\<open>PayerAllocation\<close>, and a row of the \<^verbatim>\<open>bwagreements\<close> table as
  SaveOrder fills it. The table's declaration makes \<^verbatim>\<open>serialnum\<close> the primary key. Times are
  seconds; \<^verbatim>\<open>time.Now()\<close> is a parameter. \<^verbatim>\<open>NodeID.String()\<close> is not in the sources and is a
  parameter as well.
\<close>

datatype BandwidthAction = PUT | GET | GET_AUDIT | GET_REPAIR | PUT_REPAIR

record PayerBandwidthAllocation =
  SerialNumber :: string
  UplinkId :: NodeID
  Action :: BandwidthAction
  ExpirationUnixSec :: int

record Order =
  PayerAllocation :: PayerBandwidthAllocation
  StorageNodeId :: NodeID
  Order_Total :: int

record bwagreement =
  serialnum :: string
  storage_node_id :: NodeID
  uplink_id :: NodeID
  action :: BandwidthAction
  total :: int
  created_at :: int
  expires_at :: int

datatype sql_error = UniqueViolation string

text \<open>\<^verbatim>\<open>INSERT INTO bwagreements\<close>: the database refuses a row whose primary key is already
  in the table and leaves the table as it was.\<close>

definition insert_bwagreement :: "bwagreement \<Rightarrow> bwagreement list \<Rightarrow> sql_error option \<times> bwagreement list" where
  "insert_bwagreement row tbl =
     (if serialnum row \<in> set (map serialnum tbl) then (Some (UniqueViolation (serialnum row)), tbl)
      else (None, tbl @ [row]))"

definition SaveOrder ::
  "(NodeID \<Rightarrow> string) \<Rightarrow> int \<Rightarrow> Order \<Rightarrow> bwagreement list \<Rightarrow> sql_error option \<times> bwagreement list" where
  "SaveOrder idString now rba tbl =
     insert_bwagreement
       \<lparr>serialnum = SerialNumber (PayerAllocation rba) @ idString (StorageNodeId rba),
        storage_node_id = StorageNodeId rba,
        uplink_id = UplinkId (PayerAllocation rba),
        action = Action (PayerAllocation rba),
        total = Order_Total rba,
        created_at = now,
        expires_at = ExpirationUnixSec (PayerAllocation rba)\<rparr> tbl"

text \<open>GetTotals: per storage node with a row created in \<open>(from, to]\<close>, the sums of \<^verbatim>\<open>total\<close> for
  the five actions, in the order of the query's columns.\<close>

definition sum_action :: "BandwidthAction \<Rightarrow> bwagreement list \<Rightarrow> int" where
  "sum_action a rs = sum_list (map (\<lambda>r. if action r = a then total r else 0) rs)"

definition GetTotals :: "int \<Rightarrow> int \<Rightarrow> bwagreement list \<Rightarrow> NodeID \<rightharpoonup> int list" where
  "GetTotals from to tbl =
     (\<lambda>nodeID.
        let rs = filter (\<lambda>r. storage_node_id r = nodeID \<and> from < created_at r \<and> created_at r \<le> to) tbl
        in if rs = [] then None
           else Some [sum_action PUT rs, sum_action GET rs, sum_action GET_AUDIT rs,
                      sum_action GET_REPAIR rs, sum_action PUT_REPAIR rs])"

text \<open>A run of settlements, each at its own time, whatever their outcome.\<close>

fun SaveOrders :: "(NodeID \<Rightarrow> string) \<Rightarrow> (int \<times> Order) list \<Rightarrow> bwagreement list \<Rightarrow> bwagreement list" where
  "SaveOrders idString [] tbl = tbl"
| "SaveOrders idString (settlement # rest) tbl =
     SaveOrders idString rest (snd (SaveOrder idString (fst settlement) (snd settlement) tbl))"

section \<open>Repair queue\<close>









section \<open>Concrete inputs\<close>

text \<open>An order, and two injured segments of one pointer: the second has lost more pieces
  than the first, so it has fewer healthy pieces left.\<close>

definition order1 :: Order where
  "order1 = \<lparr>PayerAllocation = \<lparr>SerialNumber = ''s1'', UplinkId = ''up'', Action = GET,
                 ExpirationUnixSec = 1000\<rparr>, StorageNodeId = ''nodeA'', Order_Total = 512\<rparr>"

definition order2 :: Order where
  "order2 = \<lparr>PayerAllocation = \<lparr>SerialNumber = ''s2'', UplinkId = ''up'', Action = PUT,
                 ExpirationUnixSec = 1000\<rparr>, StorageNodeId = ''nodeA'', Order_Total = 100\<rparr>"




text \<open>A remote pointer with k = 2 of n = 4 shares of 256 bytes on the nodes A to D, and an
  environment in which every collaborator succeeds, except as the download outcome \<open>g\<close> and
  the second pointer read \<open>again\<close> say. The true share of piece \<open>i\<close> is the byte \<open>i\<close>; the
  stand-in for the erasure code corrects every share to the true one, and the stand-in for
  the hash is the identity.\<close>

definition example_pointer :: Pointer where
  "example_pointer =
     \<lparr>Remote = Some \<lparr>Redundancy = Some \<lparr>MinReq = 2, Total = 4, RepairThreshold = 2,
                         SuccessThreshold = 3, ErasureShareSize = 256\<rparr>,
                      RootPieceId = ''root'',
                      RemotePieces = [\<lparr>PieceNum = 0, NodeId = ''A''\<rparr>, \<lparr>PieceNum = 1, NodeId = ''B''\<rparr>,
                                      \<lparr>PieceNum = 2, NodeId = ''C''\<rparr>, \<lparr>PieceNum = 3, NodeId = ''D''\<rparr>]\<rparr>,
      SegmentSize = 512, CreationDate = 100\<rparr>"

definition true_share :: "int \<Rightarrow> bytes" where
  "true_share i = [of_int i]"

definition example_env ::
  "(int \<Rightarrow> NodeID \<Rightarrow> share_error + bytes) \<Rightarrow> (Path \<Rightarrow> audit_error + Pointer) \<Rightarrow> verifier_env" where
  "example_env g again =
     \<lparr>metainfo_Get = (\<lambda>p. Inr example_pointer),
      metainfo_Get_again = again,
      NewRedundancyStrategyFromProto =
        (\<lambda>r. Inr \<lparr>RequiredCount = GetMinReq r, StrategyShareSize = GetErasureShareSize r\<rparr>),
      random_draw = 0,
      CreateAuditOrderLimits = (\<lambda>p skip. Inr [Some ''A'', Some ''B'', Some ''C'', Some ''D'']),
      CreateAuditOrderLimit = (\<lambda>p i. None),
      GetShare = g,
      NewFEC = (\<lambda>k n. None),
      Correct = (\<lambda>copies. Inr (map (\<lambda>c. c\<lparr>Data := true_share (Number c)\<rparr>) copies)),
      Rebuild = (\<lambda>shares size. Inr []),
      EncodeSingle = (\<lambda>stripe i. Inr (true_share i)),
      SHA256Hash = (\<lambda>b. b),
      UpdatePieces = (\<lambda>p ptr rm. None),
      containment_failure = (\<lambda>n. None),
      containment_Get_after_download = (\<lambda>n. None)\<rparr>"



text \<open>Errors of a download: a dial that timed out, a share that is not there, a transfer that
  timed out after the dial, and an \<^verbatim>\<open>rpc.Error\<close> that carries the status NotFound.\<close>

definition dial_timeout :: share_error where
  "dial_timeout = \<lparr>rpc_Error_Has = True, Is_context_DeadlineExceeded = True,
                   rpcstatus_Code = StatusOther\<rparr>"

definition share_not_found :: share_error where
  "share_not_found = \<lparr>rpc_Error_Has = False, Is_context_DeadlineExceeded = False,
                      rpcstatus_Code = StatusNotFound\<rparr>"

definition download_timeout :: share_error where
  "download_timeout = \<lparr>rpc_Error_Has = False, Is_context_DeadlineExceeded = False,
                       rpcstatus_Code = StatusDeadlineExceeded\<rparr>"

definition transport_not_found :: share_error where
  "transport_not_found = \<lparr>rpc_Error_Has = True, Is_context_DeadlineExceeded = False,
                          rpcstatus_Code = StatusNotFound\<rparr>"

text \<open>For Reverify: the segment at path \<open>q\<close> has the same root piece but no piece on node A
  any more. Node A has a pending audit for \<open>q\<close>; node B has one for the audited path, with the
  hash of its true share.\<close>

definition pointer_without_A :: Pointer where
  "pointer_without_A =
     \<lparr>Remote = Some \<lparr>Redundancy = Some \<lparr>MinReq = 2, Total = 4, RepairThreshold = 2,
                         SuccessThreshold = 3, ErasureShareSize = 256\<rparr>,
                      RootPieceId = ''root'',
                      RemotePieces = [\<lparr>PieceNum = 1, NodeId = ''B''\<rparr>, \<lparr>PieceNum = 2, NodeId = ''C''\<rparr>,
                                      \<lparr>PieceNum = 3, NodeId = ''D''\<rparr>]\<rparr>,
      SegmentSize = 512, CreationDate = 100\<rparr>"

definition reverify_env :: verifier_env where
  "reverify_env =
     (example_env (\<lambda>i n. Inr (true_share i)) (\<lambda>p. Inr example_pointer))
       \<lparr>metainfo_Get := (\<lambda>p. if p = ''q'' then Inr pointer_without_A else Inr example_pointer)\<rparr>"

definition pending_A :: PendingAudit where
  "pending_A = \<lparr>Pending_NodeID = ''A'', Pending_PieceID = ''root'', StripeIndex = 0,
                ShareSize = 256, ExpectedShareHash = true_share 0, Pending_Path = ''q''\<rparr>"

definition pending_B :: PendingAudit where
  "pending_B = \<lparr>Pending_NodeID = ''B'', Pending_PieceID = ''root'', StripeIndex = 0,
                ShareSize = 256, ExpectedShareHash = true_share 1, Pending_Path = ''p''\<rparr>"

definition example_containment :: containment where
  "example_containment = [''A'' \<mapsto> pending_A, ''B'' \<mapsto> pending_B]"

section \<open>Properties of GetRandomStripe\<close>

lemma go_div_pos:
  assumes "0 < b" and "0 \<le> a"
  shows "go_div a b = Inr (a div b)"
proof (cases "a = 0")
  case True
  then show ?thesis using assms by (simp add: go_div_def)
next
  case False
  with assms have "0 < a" by simp
  with assms show ?thesis by (simp add: go_div_def)
qed

text \<open>
  Claim C10. For a remote pointer whose redundancy scheme yields a strategy with a positive
  stripe size, GetRandomStripe returns an index and never panics: index 0 when the segment
  is shorter than one stripe (the sampler is not called), and otherwise an index \<open>i\<close> with
  \<open>0 \<le> i < segment_size div stripe_size\<close>, whatever value the random source draws.
\<close>

theorem GetRandomStripe_total_in_range:
  assumes "mk (GetRedundancy (Remote pointer)) = Inr rs"
    and "0 < StripeSize rs"
  shows "\<exists>i. GetRandomStripe mk v pointer = Inr i
           \<and> (if SegmentSize pointer < StripeSize rs then i = 0
               else 0 \<le> i \<and> i < SegmentSize pointer div StripeSize rs)"
proof (cases "SegmentSize pointer < StripeSize rs")
  case True
  then show ?thesis using assms by (simp add: GetRandomStripe_def)
next
  case False
  with assms have seg: "0 \<le> SegmentSize pointer" and ge: "StripeSize rs \<le> SegmentSize pointer"
    by simp_all
  have d: "go_div (SegmentSize pointer) (StripeSize rs) = Inr (SegmentSize pointer div StripeSize rs)"
    using go_div_pos [OF assms(2) seg] .
  have n: "0 < SegmentSize pointer div StripeSize rs"
    using ge assms(2) by (simp add: pos_imp_zdiv_pos_iff)
  then show ?thesis using assms False d
    by (simp add: GetRandomStripe_def Int63n_def)
qed

theorem GetRandomStripe_total_in_range_witness:
  "GetRandomStripe (\<lambda>r. Inr \<lparr>RequiredCount = GetMinReq r, StrategyShareSize = GetErasureShareSize r\<rparr>) 12345
     \<lparr>Remote = Some \<lparr>Redundancy = Some \<lparr>MinReq = 2, Total = 4, RepairThreshold = 2,
          SuccessThreshold = 3, ErasureShareSize = 256\<rparr>, RootPieceId = ''root'',
          RemotePieces = []\<rparr>, SegmentSize = 2048, CreationDate = 0\<rparr> = Inr 1"
proof -
  let ?mk = "\<lambda>r. Inr \<lparr>RequiredCount = GetMinReq r, StrategyShareSize = GetErasureShareSize r\<rparr>
               :: audit_error + RedundancyStrategy"
  let ?p = "\<lparr>Remote = Some \<lparr>Redundancy = Some \<lparr>MinReq = 2, Total = 4, RepairThreshold = 2,
          SuccessThreshold = 3, ErasureShareSize = 256\<rparr>, RootPieceId = ''root'',
          RemotePieces = []\<rparr>, SegmentSize = 2048, CreationDate = 0\<rparr>"
  let ?rs = "\<lparr>RequiredCount = 2, StrategyShareSize = 256\<rparr>"
  have a: "?mk (GetRedundancy (Remote ?p)) = Inr ?rs"
    by (simp add: GetRedundancy_def GetMinReq_def GetErasureShareSize_def)
  have b: "0 < StripeSize ?rs" by (simp add: StripeSize_def)
  from GetRandomStripe_total_in_range [of ?mk ?p ?rs 12345, OF a b]
  obtain i where "GetRandomStripe ?mk 12345 ?p = Inr i" by blast
  moreover have "GetRandomStripe ?mk 12345 ?p = Inr 1"
    by (simp add: GetRandomStripe_def GetRedundancy_def GetMinReq_def GetErasureShareSize_def
        StripeSize_def go_div_def Int63n_def)
  ultimately show ?thesis by simp
qed

section \<open>Properties of the reputation updates\<close>

lemma sint_succ:
  fixes w :: int64
  assumes "sint w < MaxInt64"
  shows "sint (w + 1) = sint w + 1"
proof -
  have lo: "- (2 ^ 63) \<le> sint w" using sint_ge [of w] by simp
  have "sint (w + 1) = signed_take_bit 63 (sint w + 1)"
    by (simp add: sint_word_ariths)
  also have "\<dots> = sint w + 1"
    using lo assms by (simp add: signed_take_bit_int_eq_self MaxInt64_def)
  finally show ?thesis .
qed

lemma sint_max_succ:
  fixes w :: int64
  assumes "\<not> sint w < MaxInt64"
  shows "sint (w + 1) < 0"
proof -
  have "sint w \<le> MaxInt64" using sint_lt [of w] by (simp add: MaxInt64_def)
  with assms have "sint w = 9223372036854775807" by (simp add: MaxInt64_def)
  then have "word_of_int (sint w) = (word_of_int 9223372036854775807 :: int64)" by simp
  then have "w = 0x7FFFFFFFFFFFFFFF" by simp
  then show ?thesis by simp
qed

lemma updateRatioVars_inv:
  assumes "0 \<le> sint s" and "sint s \<le> sint t" and "sint t < MaxInt64"
    and "updateRatioVars fdiv b s t = (s', t', r)"
  shows "0 \<le> sint s' \<and> sint s' \<le> sint t' \<and> 0 < sint t' \<and> r = fdiv s' t'"
proof -
  have t: "sint (t + 1) = sint t + 1" using assms(3) by (rule sint_succ)
  have s: "sint (s + 1) = sint s + 1"
    using assms(2,3) by (intro sint_succ) simp
  show ?thesis
    using assms t s by (auto simp: updateRatioVars_def Let_def split: if_splits)
qed

lemma updateRatioVars_overflow:
  assumes "\<not> sint t < MaxInt64" and "updateRatioVars fdiv b s t = (s', t', r)"
  shows "sint t' < 0"
  using assms sint_max_succ [of t] by (auto simp: updateRatioVars_def Let_def)

lemma updateRatioVars_iff:
  assumes "0 \<le> sint s" and "sint s \<le> sint t"
    and "updateRatioVars fdiv b s t = (s', t', r)"
  shows "(0 \<le> sint s' \<and> sint s' \<le> sint t' \<and> (0 < sint t' \<longrightarrow> r = fdiv s' t'))
           \<longleftrightarrow> sint t < MaxInt64"
proof (cases "sint t < MaxInt64")
  case True
  with updateRatioVars_inv [OF assms(1,2) True assms(3)] show ?thesis by simp
next
  case False
  with updateRatioVars_overflow [OF False assms(3)] show ?thesis by auto
qed

lemma checkRatioVars_ok:
  assumes "checkRatioVars fdiv s t = Inr r"
  shows "0 \<le> sint s \<and> sint s \<le> sint t \<and> (if 0 < sint t then r = fdiv s t else True)"
  using assms by (auto simp: checkRatioVars_def split: if_splits)

lemma Create_row:
  assumes "Create fdiv now db nodeID startingStats = Inr (stats, db1)"
  shows "\<exists>r. db1 nodeID = Some r \<and> ratio_inv fdiv r"
proof (cases startingStats)
  case None
  with assms show ?thesis
    by (auto simp: Create_def Create_Node_def Let_def ratio_inv_def split: option.splits)
next
  case (Some st)
  from assms Some obtain ra where ra: "checkRatioVars fdiv (Stats_AuditSuccessCount st) (Stats_AuditCount st) = Inr ra"
    by (auto simp: Create_def Let_def split: sum.splits)
  from assms Some ra obtain ru where ru: "checkRatioVars fdiv (Stats_UptimeSuccessCount st) (Stats_UptimeCount st) = Inr ru"
    by (auto simp: Create_def Let_def split: sum.splits)
  note a = checkRatioVars_ok [OF ra]
  note u = checkRatioVars_ok [OF ru]
  from assms Some ra ru a u show ?thesis
    by (auto simp: Create_def Create_Node_def Let_def ratio_inv_def split: option.splits)
qed

text \<open>
  Claim C5, as amended. UpdateStats increments \<open>audit_count\<close> and \<open>uptime_count\<close> on every call,
  whatever the request; it increments \<open>audit_success_count\<close> exactly when the request's
  \<open>AuditSuccess\<close> is set and \<open>uptime_success_count\<close> exactly when its \<open>IsUp\<close> is set. These are
  all the counters of the row. Of its other columns both ratios are recomputed from the new
  counters and the update time is stamped; the id, the creation time and the operator fields
  stay, and so does every other row of the table.
\<close>

theorem UpdateStats_counters:
  assumes "db (Req_NodeID req) = Some row"
  shows "\<exists>row'. UpdateStats fdiv now db req
              = Inr (getNodeStats (Req_NodeID req) row', db(Req_NodeID req \<mapsto> row'))
     \<and> TotalAuditCount row' = TotalAuditCount row + 1
     \<and> TotalUptimeCount row' = TotalUptimeCount row + 1
     \<and> AuditSuccessCount row' =
           (if AuditSuccess req then AuditSuccessCount row + 1 else AuditSuccessCount row)
     \<and> UptimeSuccessCount row' =
           (if IsUp req then UptimeSuccessCount row + 1 else UptimeSuccessCount row)
     \<and> AuditSuccessRatio row' = fdiv (AuditSuccessCount row') (TotalAuditCount row')
     \<and> UptimeRatio row' = fdiv (UptimeSuccessCount row') (TotalUptimeCount row')
     \<and> Node_Id row' = Node_Id row \<and> Wallet row' = Wallet row \<and> Email row' = Email row
     \<and> Created_At row' = Created_At row \<and> Updated_At row' = now"
proof -
  define a where "a = (if AuditSuccess req then AuditSuccessCount row + 1 else AuditSuccessCount row)"
  define u where "u = (if IsUp req then UptimeSuccessCount row + 1 else UptimeSuccessCount row)"
  define row' where "row' = row\<lparr>AuditSuccessCount := a,
      TotalAuditCount := TotalAuditCount row + 1,
      AuditSuccessRatio := fdiv a (TotalAuditCount row + 1),
      UptimeSuccessCount := u,
      TotalUptimeCount := TotalUptimeCount row + 1,
      UptimeRatio := fdiv u (TotalUptimeCount row + 1),
      Updated_At := now\<rparr>"
  have run: "UpdateStats fdiv now db req
              = Inr (getNodeStats (Req_NodeID req) row', db(Req_NodeID req \<mapsto> row'))"
    using assms
    by (simp add: UpdateStats_def Update_Node_By_Id_def updateRatioVars_def Let_def row'_def a_def u_def)
  have fields: "TotalAuditCount row' = TotalAuditCount row + 1"
    "TotalUptimeCount row' = TotalUptimeCount row + 1"
    "AuditSuccessCount row' = a" "UptimeSuccessCount row' = u"
    "AuditSuccessRatio row' = fdiv (AuditSuccessCount row') (TotalAuditCount row')"
    "UptimeRatio row' = fdiv (UptimeSuccessCount row') (TotalUptimeCount row')"
    "Node_Id row' = Node_Id row" "Wallet row' = Wallet row" "Email row' = Email row"
    "Created_At row' = Created_At row" "Updated_At row' = now"
    by (simp_all add: row'_def)
  show ?thesis
    using run fields unfolding a_def u_def by (intro exI [of _ row']) simp
qed

theorem UpdateStats_counters_witness:
  "UpdateStats exact_div 50 [''n'' \<mapsto> mk_node ''n'' 4 10 8 25 7 9]
       \<lparr>Req_NodeID = ''n'', AuditSuccess = True, IsUp = False\<rparr>
     = Inr (getNodeStats ''n'' (mk_node ''n'' 5 11 8 26 7 50), [''n'' \<mapsto> mk_node ''n'' 5 11 8 26 7 50])"
proof -
  let ?db = "[''n'' \<mapsto> mk_node ''n'' 4 10 8 25 7 9]"
  let ?req = "\<lparr>Req_NodeID = ''n'', AuditSuccess = True, IsUp = False\<rparr>"
  have h: "?db (Req_NodeID ?req) = Some (mk_node ''n'' 4 10 8 25 7 9)" by simp
  from UpdateStats_counters [where db = "?db" and req = "?req" and fdiv = exact_div
      and row = "mk_node ''n'' 4 10 8 25 7 9" and now = 50, OF h]
  obtain row' where r: "UpdateStats exact_div 50 ?db ?req
        = Inr (getNodeStats (Req_NodeID ?req) row', ?db(Req_NodeID ?req \<mapsto> row'))"
    and f: "TotalAuditCount row' = 10 + 1" "TotalUptimeCount row' = 25 + 1"
      "AuditSuccessCount row' = 4 + 1" "UptimeSuccessCount row' = 8"
      "AuditSuccessRatio row' = exact_div (AuditSuccessCount row') (TotalAuditCount row')"
      "UptimeRatio row' = exact_div (UptimeSuccessCount row') (TotalUptimeCount row')"
      "Node_Id row' = ''n''" "Wallet row' = []" "Email row' = []"
      "Created_At row' = 7" "Updated_At row' = 50"
    by (auto simp: mk_node_def)
  have "row' = mk_node ''n'' 5 11 8 26 7 50"
    using f by (cases row') (simp add: mk_node_def)
  with r show ?thesis by simp
qed

text \<open>
  The claim as stated fails: on a fresh row each of the four possible requests changes both
  \<open>audit_count\<close> and \<open>uptime_count\<close>. A success request (\<open>AuditSuccess\<close> and \<open>IsUp\<close> set) also moves
  both uptime counters, a fail request also moves \<open>uptime_count\<close>, and a request with \<open>IsUp\<close>
  unset also moves \<open>audit_count\<close>.
\<close>

theorem UpdateStats_touches_both_pairs_counterexample:
  "UpdateStats exact_div 50 [''n'' \<mapsto> mk_node ''n'' 0 0 0 0 7 9]
       \<lparr>Req_NodeID = ''n'', AuditSuccess = True, IsUp = True\<rparr>
     = Inr (getNodeStats ''n'' (mk_node ''n'' 1 1 1 1 7 50), [''n'' \<mapsto> mk_node ''n'' 1 1 1 1 7 50])
   \<and> UpdateStats exact_div 50 [''n'' \<mapsto> mk_node ''n'' 0 0 0 0 7 9]
       \<lparr>Req_NodeID = ''n'', AuditSuccess = False, IsUp = True\<rparr>
     = Inr (getNodeStats ''n'' (mk_node ''n'' 0 1 1 1 7 50), [''n'' \<mapsto> mk_node ''n'' 0 1 1 1 7 50])
   \<and> UpdateStats exact_div 50 [''n'' \<mapsto> mk_node ''n'' 0 0 0 0 7 9]
       \<lparr>Req_NodeID = ''n'', AuditSuccess = False, IsUp = False\<rparr>
     = Inr (getNodeStats ''n'' (mk_node ''n'' 0 1 0 1 7 50), [''n'' \<mapsto> mk_node ''n'' 0 1 0 1 7 50])
   \<and> UpdateStats exact_div 50 [''n'' \<mapsto> mk_node ''n'' 0 0 0 0 7 9]
       \<lparr>Req_NodeID = ''n'', AuditSuccess = True, IsUp = False\<rparr>
     = Inr (getNodeStats ''n'' (mk_node ''n'' 1 1 0 1 7 50), [''n'' \<mapsto> mk_node ''n'' 1 1 0 1 7 50])"
  by (simp add: UpdateStats_def Update_Node_By_Id_def updateRatioVars_def mk_node_def exact_div_def Let_def)

text \<open>
  Claim C6, as amended. On a row that satisfies the invariant, each update succeeds, and the
  row it leaves satisfies the invariant again exactly when the totals it increments were below
  the largest \<^verbatim>\<open>int64\<close>: both totals for UpdateStats, \<open>uptime_count\<close> alone for UpdateUptime,
  \<open>audit_count\<close> alone for UpdateAuditSuccess. Every row that Create stores satisfies the
  invariant. The invariant: success counts between zero and the totals, and each ratio with a
  positive total equal to the quotient of its counters.
\<close>

theorem reputation_updates_keep_ratio_inv:
  assumes row: "db nodeID = Some row"
    and inv: "ratio_inv fdiv row"
  shows "(\<exists>stats row'. UpdateStats fdiv now db \<lparr>Req_NodeID = nodeID, AuditSuccess = x, IsUp = y\<rparr>
               = Inr (stats, db(nodeID \<mapsto> row'))
             \<and> (ratio_inv fdiv row' \<longleftrightarrow>
                  sint (TotalAuditCount row) < MaxInt64 \<and> sint (TotalUptimeCount row) < MaxInt64))
       \<and> (\<exists>stats row'. UpdateUptime fdiv now db nodeID y = Inr (stats, db(nodeID \<mapsto> row'))
             \<and> (ratio_inv fdiv row' \<longleftrightarrow> sint (TotalUptimeCount row) < MaxInt64))
       \<and> (\<exists>stats row'. UpdateAuditSuccess fdiv now db nodeID x = Inr (stats, db(nodeID \<mapsto> row'))
             \<and> (ratio_inv fdiv row' \<longleftrightarrow> sint (TotalAuditCount row) < MaxInt64))
       \<and> (\<forall>stats db1. Create fdiv now0 db0 node0 startingStats = Inr (stats, db1)
             \<longrightarrow> (\<exists>r. db1 node0 = Some r \<and> ratio_inv fdiv r))"
proof -
  obtain s1 t1 r1 where A: "updateRatioVars fdiv x (AuditSuccessCount row) (TotalAuditCount row) = (s1, t1, r1)"
    by (metis prod_cases3)
  obtain s2 t2 r2 where U: "updateRatioVars fdiv y (UptimeSuccessCount row) (TotalUptimeCount row) = (s2, t2, r2)"
    by (metis prod_cases3)
  from inv have i: "0 \<le> sint (AuditSuccessCount row)" "sint (AuditSuccessCount row) \<le> sint (TotalAuditCount row)"
      "0 \<le> sint (UptimeSuccessCount row)" "sint (UptimeSuccessCount row) \<le> sint (TotalUptimeCount row)"
    by (simp_all add: ratio_inv_def)
  note PA = updateRatioVars_iff [OF i(1) i(2) A]
  note PU = updateRatioVars_iff [OF i(3) i(4) U]
  define rs where "rs = row\<lparr>AuditSuccessCount := s1, TotalAuditCount := t1,
      AuditSuccessRatio := r1, UptimeSuccessCount := s2, TotalUptimeCount := t2,
      UptimeRatio := r2, Updated_At := now\<rparr>"
  define ru where "ru = row\<lparr>UptimeSuccessCount := s2, TotalUptimeCount := t2, UptimeRatio := r2,
      Updated_At := now\<rparr>"
  define ra where "ra = row\<lparr>AuditSuccessCount := s1, TotalAuditCount := t1,
      AuditSuccessRatio := r1, Updated_At := now\<rparr>"
  have e1: "UpdateStats fdiv now db \<lparr>Req_NodeID = nodeID, AuditSuccess = x, IsUp = y\<rparr>
               = Inr (getNodeStats nodeID rs, db(nodeID \<mapsto> rs))"
    using row A U by (simp add: UpdateStats_def Update_Node_By_Id_def rs_def Let_def)
  let ?A = "0 \<le> sint s1 \<and> sint s1 \<le> sint t1 \<and> (0 < sint t1 \<longrightarrow> r1 = fdiv s1 t1)"
  let ?U = "0 \<le> sint s2 \<and> sint s2 \<le> sint t2 \<and> (0 < sint t2 \<longrightarrow> r2 = fdiv s2 t2)"
  have "ratio_inv fdiv rs \<longleftrightarrow> ?A \<and> ?U"
    by (auto simp add: ratio_inv_def rs_def)
  then have i1: "ratio_inv fdiv rs \<longleftrightarrow>
              sint (TotalAuditCount row) < MaxInt64 \<and> sint (TotalUptimeCount row) < MaxInt64"
    by (simp only: PA PU)
  have e2: "UpdateUptime fdiv now db nodeID y = Inr (getNodeStats nodeID ru, db(nodeID \<mapsto> ru))"
    using row U by (simp add: UpdateUptime_def Update_Node_By_Id_def ru_def Let_def)
  have "ratio_inv fdiv ru \<longleftrightarrow> ?U"
    using inv by (auto simp add: ratio_inv_def ru_def)
  then have i2: "ratio_inv fdiv ru \<longleftrightarrow> sint (TotalUptimeCount row) < MaxInt64"
    by (simp only: PU)
  have e3: "UpdateAuditSuccess fdiv now db nodeID x = Inr (getNodeStats nodeID ra, db(nodeID \<mapsto> ra))"
    using row A by (simp add: UpdateAuditSuccess_def Update_Node_By_Id_def ra_def Let_def)
  have "ratio_inv fdiv ra \<longleftrightarrow> ?A"
    using inv by (auto simp add: ratio_inv_def ra_def)
  then have i3: "ratio_inv fdiv ra \<longleftrightarrow> sint (TotalAuditCount row) < MaxInt64"
    by (simp only: PA)
  have c: "\<forall>stats db1. Create fdiv now0 db0 node0 startingStats = Inr (stats, db1)
             \<longrightarrow> (\<exists>r. db1 node0 = Some r \<and> ratio_inv fdiv r)"
    using Create_row by blast
  from e1 i1 e2 i2 e3 i3 c show ?thesis by blast
qed


theorem reputation_updates_keep_ratio_inv_witness:
  "ratio_inv exact_div (mk_node ''n'' 4 10 8 25 7 9)
   \<and> UpdateStats exact_div 50 [''n'' \<mapsto> mk_node ''n'' 4 10 8 25 7 9]
       \<lparr>Req_NodeID = ''n'', AuditSuccess = True, IsUp = False\<rparr>
     = Inr (getNodeStats ''n'' (mk_node ''n'' 5 11 8 26 7 50), [''n'' \<mapsto> mk_node ''n'' 5 11 8 26 7 50])
   \<and> ratio_inv exact_div (mk_node ''n'' 5 11 8 26 7 50)
   \<and> ratio_inv exact_div (mk_node ''m'' 0 0x7FFFFFFFFFFFFFFF 8 25 7 9)
   \<and> UpdateUptime exact_div 50 [''m'' \<mapsto> mk_node ''m'' 0 0x7FFFFFFFFFFFFFFF 8 25 7 9] ''m'' True
     = Inr (getNodeStats ''m'' (mk_node ''m'' 0 0x7FFFFFFFFFFFFFFF 9 26 7 50),
            [''m'' \<mapsto> mk_node ''m'' 0 0x7FFFFFFFFFFFFFFF 9 26 7 50])
   \<and> ratio_inv exact_div (mk_node ''m'' 0 0x7FFFFFFFFFFFFFFF 9 26 7 50)
   \<and> Create exact_div 5 Map.empty ''k''
       (Some \<lparr>Stats_NodeID = ''k'', Stats_AuditSuccessRatio = 0, Stats_AuditSuccessCount = 3,
              Stats_AuditCount = 4, Stats_UptimeRatio = 0,
              Stats_UptimeSuccessCount = 1, Stats_UptimeCount = 2,
              Operator_Email = [], Operator_Wallet = []\<rparr>)
     = Inr (getNodeStats ''k'' (mk_node ''k'' 3 4 1 2 5 5), [''k'' \<mapsto> mk_node ''k'' 3 4 1 2 5 5])
   \<and> ratio_inv exact_div (mk_node ''k'' 3 4 1 2 5 5)"
proof -
  let ?db = "[''n'' \<mapsto> mk_node ''n'' 4 10 8 25 7 9]"
  let ?start = "Some \<lparr>Stats_NodeID = ''k'', Stats_AuditSuccessRatio = 0, Stats_AuditSuccessCount = 3,
              Stats_AuditCount = 4, Stats_UptimeRatio = 0,
              Stats_UptimeSuccessCount = 1, Stats_UptimeCount = 2,
              Operator_Email = [], Operator_Wallet = []\<rparr>"
  let ?dm = "[''m'' \<mapsto> mk_node ''m'' 0 0x7FFFFFFFFFFFFFFF 8 25 7 9]"
  have h: "?db ''n'' = Some (mk_node ''n'' 4 10 8 25 7 9)" by simp
  have i: "ratio_inv exact_div (mk_node ''n'' 4 10 8 25 7 9)"
    by (simp add: ratio_inv_def mk_node_def)
  have hm: "?dm ''m'' = Some (mk_node ''m'' 0 0x7FFFFFFFFFFFFFFF 8 25 7 9)" by simp
  have im: "ratio_inv exact_div (mk_node ''m'' 0 0x7FFFFFFFFFFFFFFF 8 25 7 9)"
    by (simp add: ratio_inv_def mk_node_def exact_div_def)
  have a: "sint (TotalAuditCount (mk_node ''n'' 4 10 8 25 7 9)) < MaxInt64"
    by (simp add: mk_node_def MaxInt64_def)
  have u: "sint (TotalUptimeCount (mk_node ''n'' 4 10 8 25 7 9)) < MaxInt64"
    by (simp add: mk_node_def MaxInt64_def)
  have um: "sint (TotalUptimeCount (mk_node ''m'' 0 0x7FFFFFFFFFFFFFFF 8 25 7 9)) < MaxInt64"
    by (simp add: mk_node_def MaxInt64_def)
  from reputation_updates_keep_ratio_inv [where db = "?db" and nodeID = "''n''"
      and fdiv = exact_div and row = "mk_node ''n'' 4 10 8 25 7 9" and x = True and y = False
      and now = 50, OF h i] a u
  obtain st row' where r: "UpdateStats exact_div 50 ?db \<lparr>Req_NodeID = ''n'', AuditSuccess = True, IsUp = False\<rparr>
       = Inr (st, ?db(''n'' \<mapsto> row'))" and i': "ratio_inv exact_div row'"
    by blast
  have e: "UpdateStats exact_div 50 ?db \<lparr>Req_NodeID = ''n'', AuditSuccess = True, IsUp = False\<rparr>
     = Inr (getNodeStats ''n'' (mk_node ''n'' 5 11 8 26 7 50), [''n'' \<mapsto> mk_node ''n'' 5 11 8 26 7 50])"
    by (simp add: UpdateStats_def Update_Node_By_Id_def updateRatioVars_def mk_node_def exact_div_def Let_def)
  from r e have "?db(''n'' \<mapsto> row') = [''n'' \<mapsto> mk_node ''n'' 5 11 8 26 7 50]" by simp
  then have "(?db(''n'' \<mapsto> row')) ''n'' = [''n'' \<mapsto> mk_node ''n'' 5 11 8 26 7 50] ''n''" by (rule arg_cong)
  then have r1: "row' = mk_node ''n'' 5 11 8 26 7 50" by simp
  from reputation_updates_keep_ratio_inv [where db = "?dm" and nodeID = "''m''"
      and fdiv = exact_div and row = "mk_node ''m'' 0 0x7FFFFFFFFFFFFFFF 8 25 7 9" and y = True
      and now = 50, OF hm im] um
  obtain st2 row2 where r2: "UpdateUptime exact_div 50 ?dm ''m'' True = Inr (st2, ?dm(''m'' \<mapsto> row2))"
    and i2: "ratio_inv exact_div row2"
    by blast
  have e2: "UpdateUptime exact_div 50 ?dm ''m'' True
     = Inr (getNodeStats ''m'' (mk_node ''m'' 0 0x7FFFFFFFFFFFFFFF 9 26 7 50),
            [''m'' \<mapsto> mk_node ''m'' 0 0x7FFFFFFFFFFFFFFF 9 26 7 50])"
    by (simp add: UpdateUptime_def Update_Node_By_Id_def updateRatioVars_def mk_node_def exact_div_def Let_def)
  from r2 e2 have "?dm(''m'' \<mapsto> row2) = [''m'' \<mapsto> mk_node ''m'' 0 0x7FFFFFFFFFFFFFFF 9 26 7 50]" by simp
  then have "(?dm(''m'' \<mapsto> row2)) ''m'' = [''m'' \<mapsto> mk_node ''m'' 0 0x7FFFFFFFFFFFFFFF 9 26 7 50] ''m''"
    by (rule arg_cong)
  then have r3: "row2 = mk_node ''m'' 0 0x7FFFFFFFFFFFFFFF 9 26 7 50" by simp
  have c: "Create exact_div 5 Map.empty ''k'' ?start
     = Inr (getNodeStats ''k'' (mk_node ''k'' 3 4 1 2 5 5), [''k'' \<mapsto> mk_node ''k'' 3 4 1 2 5 5])"
    by (simp add: Create_def Create_Node_def checkRatioVars_def mk_node_def exact_div_def
        getNodeStats_def Let_def)
  from reputation_updates_keep_ratio_inv [where db = "?db" and nodeID = "''n''"
      and fdiv = exact_div and row = "mk_node ''n'' 4 10 8 25 7 9"
      and ?now0.0 = 5 and ?db0.0 = Map.empty and ?node0.0 = "''k''" and startingStats = ?start,
      OF h i] c
  have "\<exists>r. [''k'' \<mapsto> mk_node ''k'' 3 4 1 2 5 5] ''k'' = Some r \<and> ratio_inv exact_div r"
    by blast
  then have ic: "ratio_inv exact_div (mk_node ''k'' 3 4 1 2 5 5)" by simp
  from i i' e r1 im i2 e2 r3 c ic show ?thesis by simp
qed

text \<open>
  The claim as stated fails at the largest \<^verbatim>\<open>int64\<close>: Create accepts starting stats with
  \<open>audit_count = 2^63 - 1\<close>, the row satisfies the invariant, and one UpdateStats wraps
  \<open>audit_count\<close> to \<open>- 2^63\<close>, below \<open>audit_success_count\<close>.
\<close>

theorem ratio_inv_overflow_counterexample:
  "Create exact_div 5 Map.empty ''n''
       (Some \<lparr>Stats_NodeID = ''n'', Stats_AuditSuccessRatio = 0, Stats_AuditSuccessCount = 0,
              Stats_AuditCount = 0x7FFFFFFFFFFFFFFF, Stats_UptimeRatio = 0,
              Stats_UptimeSuccessCount = 0, Stats_UptimeCount = 0,
              Operator_Email = [], Operator_Wallet = []\<rparr>)
     = Inr (getNodeStats ''n'' (mk_node ''n'' 0 0x7FFFFFFFFFFFFFFF 0 0 5 5),
            [''n'' \<mapsto> mk_node ''n'' 0 0x7FFFFFFFFFFFFFFF 0 0 5 5])
   \<and> ratio_inv exact_div (mk_node ''n'' 0 0x7FFFFFFFFFFFFFFF 0 0 5 5)
   \<and> UpdateStats exact_div 6 [''n'' \<mapsto> mk_node ''n'' 0 0x7FFFFFFFFFFFFFFF 0 0 5 5]
       \<lparr>Req_NodeID = ''n'', AuditSuccess = True, IsUp = True\<rparr>
     = Inr (getNodeStats ''n'' (mk_node ''n'' 1 0x8000000000000000 1 1 5 6),
            [''n'' \<mapsto> mk_node ''n'' 1 0x8000000000000000 1 1 5 6])
   \<and> sint (TotalAuditCount (mk_node ''n'' 1 0x8000000000000000 1 1 5 6)) = - 9223372036854775808
   \<and> \<not> ratio_inv exact_div (mk_node ''n'' 1 0x8000000000000000 1 1 5 6)"
  by (simp add: Create_def Create_Node_def checkRatioVars_def UpdateStats_def Update_Node_By_Id_def
      updateRatioVars_def mk_node_def exact_div_def ratio_inv_def getNodeStats_def Let_def)

section \<open>Properties of the bandwidth agreements\<close>

lemma insert_bwagreement_present:
  assumes "serialnum row \<in> set (map serialnum tbl)"
  shows "insert_bwagreement row tbl = (Some (UniqueViolation (serialnum row)), tbl)"
  using assms by (simp add: insert_bwagreement_def)

lemma insert_bwagreement_ok_key:
  assumes "insert_bwagreement row tbl = (None, tbl1)"
  shows "serialnum row \<in> set (map serialnum tbl1)
         \<and> length (filter (\<lambda>r. serialnum r = serialnum row) tbl1) = 1"
proof -
  have "serialnum row \<notin> set (map serialnum tbl)" and "tbl1 = tbl @ [row]"
    using assms by (auto simp: insert_bwagreement_def split: if_splits)
  moreover from this have "filter (\<lambda>r. serialnum r = serialnum row) tbl = []"
    by (simp add: filter_empty_conv image_iff) metis
  ultimately show ?thesis by simp
qed

lemma insert_bwagreement_keeps:
  assumes "k \<in> set (map serialnum tbl)"
  shows "k \<in> set (map serialnum (snd (insert_bwagreement row tbl)))
         \<and> length (filter (\<lambda>r. serialnum r = k) (snd (insert_bwagreement row tbl)))
             = length (filter (\<lambda>r. serialnum r = k) tbl)"
  using assms by (auto simp: insert_bwagreement_def)

lemma SaveOrders_keeps:
  assumes "k \<in> set (map serialnum tbl)"
  shows "k \<in> set (map serialnum (SaveOrders idString later tbl))
         \<and> length (filter (\<lambda>r. serialnum r = k) (SaveOrders idString later tbl))
             = length (filter (\<lambda>r. serialnum r = k) tbl)"
  using assms
proof (induction later arbitrary: tbl)
  case Nil
  then show ?case by simp
next
  case (Cons settlement later)
  let ?t = "snd (SaveOrder idString (fst settlement) (snd settlement) tbl)"
  have step: "k \<in> set (map serialnum ?t)
      \<and> length (filter (\<lambda>r. serialnum r = k) ?t) = length (filter (\<lambda>r. serialnum r = k) tbl)"
    unfolding SaveOrder_def using insert_bwagreement_keeps [OF Cons.prems] by blast
  from Cons.IH [of ?t] step show ?case by simp
qed

text \<open>
  Claim C7. The primary key of a row is the serial number followed by the storage node id.
  Whatever table already holds a row with the key of an order, saving that order is refused
  with a unique-key violation and the table, and with it every total GetTotals returns for any
  window, stays as it was. Hence once an order has been saved, and whatever further orders are
  saved afterwards, the table holds exactly one row for that serial number and storage node,
  and saving another order with the same pair (whatever its amount) is refused and changes
  no total.
\<close>

theorem SaveOrder_same_serial_once:
  "(SerialNumber (PayerAllocation o3) @ idString (StorageNodeId o3) \<in> set (map serialnum tbl0)
      \<longrightarrow> SaveOrder idString now3 o3 tbl0
            = (Some (UniqueViolation (SerialNumber (PayerAllocation o3) @ idString (StorageNodeId o3))), tbl0)
          \<and> GetTotals from to (snd (SaveOrder idString now3 o3 tbl0)) = GetTotals from to tbl0)
   \<and> (SaveOrder idString now1 o1 tbl = (None, tbl1)
       \<and> SerialNumber (PayerAllocation o2) = SerialNumber (PayerAllocation o1)
       \<and> StorageNodeId o2 = StorageNodeId o1
      \<longrightarrow> (let key = SerialNumber (PayerAllocation o1) @ idString (StorageNodeId o1);
               tblN = SaveOrders idString later tbl1
           in SaveOrder idString now2 o2 tblN = (Some (UniqueViolation key), tblN)
              \<and> length (filter (\<lambda>r. serialnum r = key) tblN) = 1
              \<and> GetTotals from to (snd (SaveOrder idString now2 o2 tblN)) = GetTotals from to tblN))"
proof (intro conjI impI)
  assume k: "SerialNumber (PayerAllocation o3) @ idString (StorageNodeId o3) \<in> set (map serialnum tbl0)"
  then show a: "SaveOrder idString now3 o3 tbl0
            = (Some (UniqueViolation (SerialNumber (PayerAllocation o3) @ idString (StorageNodeId o3))), tbl0)"
    unfolding SaveOrder_def by (subst insert_bwagreement_present) simp_all
  then show "GetTotals from to (snd (SaveOrder idString now3 o3 tbl0)) = GetTotals from to tbl0"
    by simp
next
  assume h: "SaveOrder idString now1 o1 tbl = (None, tbl1)
       \<and> SerialNumber (PayerAllocation o2) = SerialNumber (PayerAllocation o1)
       \<and> StorageNodeId o2 = StorageNodeId o1"
  let ?key = "SerialNumber (PayerAllocation o1) @ idString (StorageNodeId o1)"
  let ?tblN = "SaveOrders idString later tbl1"
  from h have first: "SaveOrder idString now1 o1 tbl = (None, tbl1)" by simp
  have in1: "?key \<in> set (map serialnum tbl1)" and one: "length (filter (\<lambda>r. serialnum r = ?key) tbl1) = 1"
    using insert_bwagreement_ok_key [OF first [unfolded SaveOrder_def]] by simp_all
  have inN: "?key \<in> set (map serialnum ?tblN)"
    and oneN: "length (filter (\<lambda>r. serialnum r = ?key) ?tblN) = 1"
    using SaveOrders_keeps [OF in1, of idString later] one by simp_all
  have rej: "SaveOrder idString now2 o2 ?tblN = (Some (UniqueViolation ?key), ?tblN)"
    unfolding SaveOrder_def using h inN
    by (subst insert_bwagreement_present) simp_all
  show "let key = ?key; tblN = ?tblN
           in SaveOrder idString now2 o2 tblN = (Some (UniqueViolation key), tblN)
              \<and> length (filter (\<lambda>r. serialnum r = key) tblN) = 1
              \<and> GetTotals from to (snd (SaveOrder idString now2 o2 tblN)) = GetTotals from to tblN"
    using rej oneN by (simp add: Let_def)
qed

theorem SaveOrder_same_serial_once_witness:
  "SaveOrder id 10 order1 [] = (None, [\<lparr>serialnum = ''s1nodeA'', storage_node_id = ''nodeA'',
        uplink_id = ''up'', action = GET, total = 512, created_at = 10, expires_at = 1000\<rparr>])
   \<and> SaveOrders id [(15, order2), (16, order1)] (snd (SaveOrder id 10 order1 []))
       = [\<lparr>serialnum = ''s1nodeA'', storage_node_id = ''nodeA'',
            uplink_id = ''up'', action = GET, total = 512, created_at = 10, expires_at = 1000\<rparr>,
          \<lparr>serialnum = ''s2nodeA'', storage_node_id = ''nodeA'',
            uplink_id = ''up'', action = PUT, total = 100, created_at = 15, expires_at = 1000\<rparr>]
   \<and> SaveOrder id 20 (order1\<lparr>Order_Total := 4096\<rparr>)
         (SaveOrders id [(15, order2), (16, order1)] (snd (SaveOrder id 10 order1 [])))
       = (Some (UniqueViolation ''s1nodeA''),
          SaveOrders id [(15, order2), (16, order1)] (snd (SaveOrder id 10 order1 [])))
   \<and> GetTotals 0 100 (snd (SaveOrder id 20 (order1\<lparr>Order_Total := 4096\<rparr>)
         (SaveOrders id [(15, order2), (16, order1)] (snd (SaveOrder id 10 order1 [])))))
        ''nodeA'' = Some [100, 512, 0, 0, 0]"
proof -
  let ?t1 = "[\<lparr>serialnum = ''s1nodeA'', storage_node_id = ''nodeA'',
        uplink_id = ''up'', action = GET, total = 512, created_at = 10, expires_at = 1000\<rparr>]"
  let ?tN = "[\<lparr>serialnum = ''s1nodeA'', storage_node_id = ''nodeA'',
            uplink_id = ''up'', action = GET, total = 512, created_at = 10, expires_at = 1000\<rparr>,
          \<lparr>serialnum = ''s2nodeA'', storage_node_id = ''nodeA'',
            uplink_id = ''up'', action = PUT, total = 100, created_at = 15, expires_at = 1000\<rparr>]"
  have a: "SaveOrder id 10 order1 [] = (None, ?t1)"
    by (simp add: SaveOrder_def insert_bwagreement_def order1_def)
  have s: "SerialNumber (PayerAllocation (order1\<lparr>Order_Total := 4096\<rparr>)) = SerialNumber (PayerAllocation order1)"
    by simp
  have n: "StorageNodeId (order1\<lparr>Order_Total := 4096\<rparr>) = StorageNodeId order1" by simp
  have l: "SaveOrders id [(15, order2), (16, order1)] ?t1 = ?tN"
    by (simp add: SaveOrder_def insert_bwagreement_def order1_def order2_def)
  have k: "SerialNumber (PayerAllocation order1) @ id (StorageNodeId order1) = ''s1nodeA''"
    by (simp add: order1_def)
  have g: "GetTotals 0 100 ?tN ''nodeA'' = Some [100, 512, 0, 0, 0]"
    by (simp add: GetTotals_def sum_action_def)
  from SaveOrder_same_serial_once [where idString = id and ?now1.0 = 10 and ?o1.0 = order1
      and tbl = "[]" and ?tbl1.0 = ?t1 and ?o2.0 = "order1\<lparr>Order_Total := 4096\<rparr>"
      and later = "[(15, order2), (16, order1)]" and ?now2.0 = 20] a s n
  have "SaveOrder id 20 (order1\<lparr>Order_Total := 4096\<rparr>) (SaveOrders id [(15, order2), (16, order1)] ?t1)
          = (Some (UniqueViolation (SerialNumber (PayerAllocation order1) @ id (StorageNodeId order1))),
             SaveOrders id [(15, order2), (16, order1)] ?t1)"
    by (simp add: Let_def)
  moreover have "''s1nodeA'' \<in> set (map serialnum ?tN)" by simp
  with SaveOrder_same_serial_once [where idString = id and ?o3.0 = "order1\<lparr>Order_Total := 4096\<rparr>"
      and ?tbl0.0 = ?tN and ?now3.0 = 20 and ?from = 0 and to = 100] k
  have "GetTotals 0 100 (snd (SaveOrder id 20 (order1\<lparr>Order_Total := 4096\<rparr>) ?tN))
          = GetTotals 0 100 ?tN"
    by simp
  ultimately show ?thesis using a l k g by simp
qed

section \<open>Properties of the repair queue\<close>




section \<open>Properties of Verify\<close>

lemma update_fresh: "k \<notin> fst ` set al \<Longrightarrow> AList.update k v al = al @ [(k, v)]"
  by (induction al) auto

lemma sharesToAudit_classify_share:
  "sharesToAudit (classify_share e st) =
     (if Share_Error (snd e) = None then AList.update (fst e) (snd e) (sharesToAudit st)
      else sharesToAudit st)"
  by (simp add: classify_share_def Let_def split: option.split)

lemma sharesToAudit_classify_shares:
  assumes "distinct (map fst shares)"
    and "fst ` set shares \<inter> fst ` set (sharesToAudit st) = {}"
  shows "sharesToAudit (classify_shares shares st)
           = sharesToAudit st @ filter (\<lambda>e. Share_Error (snd e) = None) shares"
  using assms
proof (induction shares arbitrary: st)
  case Nil
  then show ?case by (simp add: classify_shares_def)
next
  case (Cons e shares)
  have fresh: "fst e \<notin> fst ` set (sharesToAudit st)" using Cons.prems(2) by auto
  have d: "distinct (map fst shares)" using Cons.prems(1) by simp
  have step: "sharesToAudit (classify_share e st) =
     (if Share_Error (snd e) = None then sharesToAudit st @ [(fst e, snd e)] else sharesToAudit st)"
    using fresh by (simp add: sharesToAudit_classify_share update_fresh)
  have disj: "fst ` set shares \<inter> fst ` set (sharesToAudit (classify_share e st)) = {}"
    using Cons.prems step by (auto split: if_splits)
  have "sharesToAudit (classify_shares (e # shares) st)
          = sharesToAudit (classify_shares shares (classify_share e st))"
    by (simp add: classify_shares_def)
  also have "\<dots> = sharesToAudit (classify_share e st) @ filter (\<lambda>e. Share_Error (snd e) = None) shares"
    using Cons.IH [OF d disj] .
  finally show ?case using step by simp
qed

lemma DownloadShares_from_keys:
  "e \<in> set (DownloadShares_from g i ls) \<Longrightarrow> i \<le> fst e"
  by (induction g i ls rule: DownloadShares_from.induct) auto

lemma DownloadShares_from_distinct:
  "distinct (map fst (DownloadShares_from g i ls))"
proof (induction g i ls rule: DownloadShares_from.induct)
  case (3 getShare i node limits)
  have "\<And>e. e \<in> set (DownloadShares_from getShare (i + 1) limits) \<Longrightarrow> fst e \<noteq> i"
    using DownloadShares_from_keys by fastforce
  with 3 show ?case by auto
qed simp_all

lemma DownloadShares_distinct: "distinct (map fst (DownloadShares env limits))"
  by (simp add: DownloadShares_def DownloadShares_from_distinct)

lemma candidates_are_clean_downloads:
  "sharesToAudit (classify_shares (DownloadShares env limits)
       \<lparr>offlineNodes = off, failedNodes = [], containedNodes = [], sharesToAudit = []\<rparr>)
     = filter (\<lambda>e. Share_Error (snd e) = None) (DownloadShares env limits)"
  using sharesToAudit_classify_shares [OF DownloadShares_distinct, of env limits
      "\<lparr>offlineNodes = off, failedNodes = [], containedNodes = [], sharesToAudit = []\<rparr>"]
  by simp











text \<open>
  Claim C2. When Verify has fetched the pointer, drawn a stripe, obtained the order limits and
  found the segment unaltered, and fewer than k of the downloads ended without error, it
  returns the error ErrNotEnoughShares together with a report whose Fails and Offlines are the
  nodes classified by the loop, and whose Successes and PendingAudits are empty; it does not
  call UpdatePieces.
\<close>

theorem Verify_not_enough_shares:
  assumes get: "metainfo_Get env path = Inr pointer"
    and stripe: "GetRandomStripe (NewRedundancyStrategyFromProto env) (random_draw env) pointer = Inr idx"
    and limits: "CreateAuditOrderLimits env pointer skip = Inr limits"
    and unaltered: "checkIfSegmentAltered env path (Some pointer) = Inr p'"
    and remote: "Remote pointer = Some remote"
    and few: "int (length (filter (\<lambda>e. Share_Error (snd e) = None) (DownloadShares env limits)))
                < GetMinReq (Redundancy remote)"
  shows "let st = classify_shares (DownloadShares env limits)
                    \<lparr>offlineNodes = getOfflineNodes pointer limits skip, failedNodes = [],
                     containedNodes = [], sharesToAudit = []\<rparr>
         in Verify env path skip =
              \<lparr>returned_report = Some \<lparr>Successes = [], Fails = failedNodes st,
                                       Offlines = offlineNodes st, PendingAudits = []\<rparr>,
               returned_err = Some (ErrNotEnoughShares
                  (int (length (filter (\<lambda>e. Share_Error (snd e) = None) (DownloadShares env limits))))
                  (GetMinReq (Redundancy remote))),
               UpdatePieces_calls = []\<rparr>"
  using assms
  by (simp add: Verify_def Let_def candidates_are_clean_downloads returns_def)

text \<open>
  Claim C3. When the pointer read again after the downloads is gone, or has a creation date
  other than that of the pointer read first, Verify returns the error ErrSegmentDeleted, and
  its report has no successes, no fails and no pending audits (only the nodes for which no
  order limit was created are listed, as offline); it does not call UpdatePieces.
\<close>

theorem Verify_segment_altered:
  assumes get: "metainfo_Get env path = Inr pointer"
    and stripe: "GetRandomStripe (NewRedundancyStrategyFromProto env) (random_draw env) pointer = Inr idx"
    and limits: "CreateAuditOrderLimits env pointer skip = Inr limits"
    and altered: "metainfo_Get_again env path = Inl ErrKeyNotFound
                  \<or> (\<exists>p'. metainfo_Get_again env path = Inr p' \<and> CreationDate p' \<noteq> CreationDate pointer)"
  shows "Verify env path skip =
           \<lparr>returned_report = Some \<lparr>Successes = [], Fails = [],
                                    Offlines = getOfflineNodes pointer limits skip, PendingAudits = []\<rparr>,
            returned_err = Some (ErrSegmentDeleted path),
            UpdatePieces_calls = []\<rparr>"
proof -
  have "checkIfSegmentAltered env path (Some pointer) = Inl (ErrSegmentDeleted path)"
    using altered by (auto simp: checkIfSegmentAltered_def)
  then show ?thesis
    using get stripe limits by (simp add: Verify_def Let_def returns_def)
qed


theorem Verify_not_enough_shares_witness:
  "Verify (example_env (\<lambda>i n. if n = ''A'' then Inr (true_share i)
                              else if n = ''B'' then Inl dial_timeout
                              else if n = ''C'' then Inl share_not_found
                              else Inl download_timeout)
                      (\<lambda>p. Inr example_pointer)) ''p'' (\<lambda>n. False)
     = \<lparr>returned_report = Some \<lparr>Successes = [], Fails = [''C''], Offlines = [''B''],
                                PendingAudits = []\<rparr>,
        returned_err = Some (ErrNotEnoughShares 1 2), UpdatePieces_calls = []\<rparr>"
proof -
  let ?env = "example_env (\<lambda>i n. if n = ''A'' then Inr (true_share i)
                              else if n = ''B'' then Inl dial_timeout
                              else if n = ''C'' then Inl share_not_found
                              else Inl download_timeout)
                      (\<lambda>p. Inr example_pointer)"
  let ?limits = "[Some ''A'', Some ''B'', Some ''C'', Some ''D'']"
  let ?remote = "\<lparr>Redundancy = Some \<lparr>MinReq = 2, Total = 4, RepairThreshold = 2,
                         SuccessThreshold = 3, ErasureShareSize = 256\<rparr>,
                      RootPieceId = ''root'',
                      RemotePieces = [\<lparr>PieceNum = 0, NodeId = ''A''\<rparr>, \<lparr>PieceNum = 1, NodeId = ''B''\<rparr>,
                                      \<lparr>PieceNum = 2, NodeId = ''C''\<rparr>, \<lparr>PieceNum = 3, NodeId = ''D''\<rparr>]\<rparr>"
  have get: "metainfo_Get ?env ''p'' = Inr example_pointer"
    by (simp add: example_env_def)
  have stripe: "GetRandomStripe (NewRedundancyStrategyFromProto ?env) (random_draw ?env) example_pointer = Inr 0"
    by code_simp
  have limits: "CreateAuditOrderLimits ?env example_pointer (\<lambda>n. False) = Inr ?limits"
    by (simp add: example_env_def)
  have unaltered: "checkIfSegmentAltered ?env ''p'' (Some example_pointer) = Inr example_pointer"
    by (simp add: checkIfSegmentAltered_def example_env_def)
  have remote: "Remote example_pointer = Some ?remote"
    by (simp add: example_pointer_def)
  have few: "int (length (filter (\<lambda>e. Share_Error (snd e) = None) (DownloadShares ?env ?limits)))
                < GetMinReq (Redundancy ?remote)"
    by code_simp
  have n: "int (length (filter (\<lambda>e. Share_Error (snd e) = None) (DownloadShares ?env ?limits))) = 1"
    by code_simp
  have f: "failedNodes (classify_shares (DownloadShares ?env ?limits)
                    \<lparr>offlineNodes = getOfflineNodes example_pointer ?limits (\<lambda>n. False), failedNodes = [],
                     containedNodes = [], sharesToAudit = []\<rparr>) = [''C'']"
    by code_simp
  have o: "offlineNodes (classify_shares (DownloadShares ?env ?limits)
                    \<lparr>offlineNodes = getOfflineNodes example_pointer ?limits (\<lambda>n. False), failedNodes = [],
                     containedNodes = [], sharesToAudit = []\<rparr>) = [''B'']"
    by code_simp
  have k: "GetMinReq (Redundancy ?remote) = 2" by (simp add: GetMinReq_def)
  from Verify_not_enough_shares [OF get stripe limits unaltered remote few]
  show ?thesis by (simp only: Let_def n f o k)
qed

theorem Verify_segment_altered_witness:
  "Verify (example_env (\<lambda>i n. Inr (true_share i)) (\<lambda>p. Inr (example_pointer\<lparr>CreationDate := 101\<rparr>)))
       ''p'' (\<lambda>n. False)
     = \<lparr>returned_report = Some \<lparr>Successes = [], Fails = [], Offlines = [], PendingAudits = []\<rparr>,
        returned_err = Some (ErrSegmentDeleted ''p''), UpdatePieces_calls = []\<rparr>"
proof -
  let ?env = "example_env (\<lambda>i n. Inr (true_share i)) (\<lambda>p. Inr (example_pointer\<lparr>CreationDate := 101\<rparr>))"
  let ?limits = "[Some ''A'', Some ''B'', Some ''C'', Some ''D'']"
  have get: "metainfo_Get ?env ''p'' = Inr example_pointer"
    by (simp add: example_env_def)
  have stripe: "GetRandomStripe (NewRedundancyStrategyFromProto ?env) (random_draw ?env) example_pointer = Inr 0"
    by code_simp
  have limits: "CreateAuditOrderLimits ?env example_pointer (\<lambda>n. False) = Inr ?limits"
    by (simp add: example_env_def)
  have altered: "metainfo_Get_again ?env ''p'' = Inl ErrKeyNotFound
                  \<or> (\<exists>p'. metainfo_Get_again ?env ''p'' = Inr p' \<and> CreationDate p' \<noteq> CreationDate example_pointer)"
    by (simp add: example_env_def example_pointer_def)
  have off: "getOfflineNodes example_pointer ?limits (\<lambda>n. False) = []"
    by code_simp
  from Verify_segment_altered [OF get stripe limits altered]
  show ?thesis by (simp only: off)
qed


lemma update_twice: "AList.update k v (AList.update k v al) = AList.update k v al"
  by (induction al) auto

text \<open>
  The classification loop against the spec's table: an errored download puts its node in the
  bucket the table names, with one exception. An error of class \<^verbatim>\<open>rpc.Error\<close> for which the
  table says fail is recorded as contained first and as failed as well.
\<close>

theorem classify_share_follows_table:
  assumes "Share_Error share = Some e"
  shows "classify_share (pieceNum, share) st =
           (if rpc_Error_Has e \<and> spec_bucket e = Fail
            then put_in Fail pieceNum (Share_NodeID share) (put_in Contained pieceNum (Share_NodeID share) st)
            else put_in (spec_bucket e) pieceNum (Share_NodeID share) st)"
  using assms
  by (auto simp: classify_share_def spec_bucket_def put_in_def Let_def update_twice)

theorem classify_share_follows_table_witness:
  "classify_share (3, \<lparr>Share_Error = Some download_timeout, Share_PieceNum = 3, Share_NodeID = ''D'', Share_Data = []\<rparr>)
      \<lparr>offlineNodes = [], failedNodes = [], containedNodes = [], sharesToAudit = []\<rparr>
    = \<lparr>offlineNodes = [], failedNodes = [], containedNodes = [(3, ''D'')], sharesToAudit = []\<rparr>
   \<and> classify_share (2, \<lparr>Share_Error = Some share_not_found, Share_PieceNum = 2, Share_NodeID = ''C'', Share_Data = []\<rparr>)
      \<lparr>offlineNodes = [], failedNodes = [], containedNodes = [], sharesToAudit = []\<rparr>
    = \<lparr>offlineNodes = [], failedNodes = [''C''], containedNodes = [], sharesToAudit = []\<rparr>
   \<and> classify_share (1, \<lparr>Share_Error = Some dial_timeout, Share_PieceNum = 1, Share_NodeID = ''B'', Share_Data = []\<rparr>)
      \<lparr>offlineNodes = [], failedNodes = [], containedNodes = [], sharesToAudit = []\<rparr>
    = \<lparr>offlineNodes = [''B''], failedNodes = [], containedNodes = [], sharesToAudit = []\<rparr>"
proof -
  let ?st = "\<lparr>offlineNodes = [], failedNodes = [], containedNodes = [], sharesToAudit = []\<rparr>"
  let ?d = "\<lparr>Share_Error = Some download_timeout, Share_PieceNum = 3, Share_NodeID = ''D'', Share_Data = []\<rparr>"
  let ?c = "\<lparr>Share_Error = Some share_not_found, Share_PieceNum = 2, Share_NodeID = ''C'', Share_Data = []\<rparr>"
  let ?b = "\<lparr>Share_Error = Some dial_timeout, Share_PieceNum = 1, Share_NodeID = ''B'', Share_Data = []\<rparr>"
  have d: "Share_Error ?d = Some download_timeout" by simp
  have c: "Share_Error ?c = Some share_not_found" by simp
  have b: "Share_Error ?b = Some dial_timeout" by simp
  show ?thesis
    using classify_share_follows_table [OF d, of 3 ?st]
      classify_share_follows_table [OF c, of 2 ?st]
      classify_share_follows_table [OF b, of 1 ?st]
    by (simp add: spec_bucket_def put_in_def download_timeout_def share_not_found_def
        dial_timeout_def IsRPC_def)
qed

text \<open>
  Claim C1 fails on the code. A download error of class \<^verbatim>\<open>rpc.Error\<close> that is neither a dial
  timeout nor of status Unknown, and that carries the status NotFound, is recorded as
  contained and, since that branch does not leave the loop body, as failed too: node C below
  is among the Fails, gets a pending audit, and loses its piece.
\<close>

theorem Verify_transport_NotFound_classified_twice:
  "Verify (example_env (\<lambda>i n. if n = ''C'' then Inl transport_not_found else Inr (true_share i))
                      (\<lambda>p. Inr example_pointer)) ''p'' (\<lambda>n. False)
     = \<lparr>returned_report =
          Some \<lparr>Successes = [''A'', ''B'', ''D''], Fails = [''C''], Offlines = [],
                PendingAudits = [\<lparr>Pending_NodeID = ''C'', Pending_PieceID = ''root'',
                                   StripeIndex = 0, ShareSize = 256, ExpectedShareHash = [2],
                                   Pending_Path = ''p''\<rparr>]\<rparr>,
        returned_err = None,
        UpdatePieces_calls = [(''p'', example_pointer, [\<lparr>PieceNum = 2, NodeId = ''C''\<rparr>])]\<rparr>"
  by code_simp

section \<open>Properties of Reverify\<close>

text \<open>
  Claim C9 fails on the code. For node A, whose pending audit names a segment that no longer
  holds a piece on A, the goroutine deletes the pending audit and attributes no error, but it
  sends two results (erred, then skipped) where the collector expects one per piece. With
  the four pieces A to D the channel carries five results; the collector takes four, and the
  success of node B, whose share matched, never reaches the report.
\<close>

theorem Reverify_vanished_node_sends_two_results:
  "(case reverify_pending reverify_env pending_A example_containment of
      Inl e \<Rightarrow> False
    | Inr (sent, db, calls) \<Rightarrow>
        sent = [send ''A'' erred, send ''A'' skipped] \<and> db ''A'' = None \<and> calls = [])
   \<and> (case reverify_pending reverify_env pending_B example_containment of
      Inl e \<Rightarrow> False
    | Inr (sent, db, calls) \<Rightarrow> sent = [send ''B'' success])
   \<and> results_sent (Reverify reverify_env ''p'' example_containment)
       = [send ''C'' skipped, send ''D'' skipped, send ''A'' erred, send ''A'' skipped,
          send ''B'' success]
   \<and> reverify_report (Reverify reverify_env ''p'' example_containment)
       = Some \<lparr>Successes = [], Fails = [], Offlines = [], PendingAudits = []\<rparr>
   \<and> reverify_errors (Reverify reverify_env ''p'' example_containment) = []"
  by code_simp

end
